theory Spec2Isabelle
  imports Main
begin

section \<open>JavaScript values\<close>

text \<open>
  The permission engine works on untyped data: condition objects stored as JSON, the acting
  user (an \<^verbatim>\<open>Account\<close> entity whose attribute graph is walked by name) and resource
  instances. They are modelled by one datatype of JavaScript values. Numbers are the
  integers (identifiers and flags; no fractions or \<^verbatim>\<open>NaN\<close>). An object is the list of its
  own properties in insertion order; a property is a data property holding a value, or an
  accessor property whose getter raises \<^verbatim>\<open>Error(m)\<close> when it is read. Arrays and strings
  have their indices and their \<^verbatim>\<open>length\<close>. Inherited members (\<^verbatim>\<open>constructor\<close>, methods),
  which are functions and no values of this datatype, and the identity of objects are not
  represented.
\<close>

datatype 'a slot = Data 'a | Accessor string

datatype jsval =
    JUndefined
  | JNull
  | JBool bool
  | JNum int
  | JStr string
  | JArr "jsval list"
  | JObj "(string \<times> jsval slot) list"

text \<open>An object literal: data properties only.\<close>

definition plainObj :: "(string \<times> jsval) list \<Rightarrow> jsval" where
  "plainObj kvs = JObj (map (\<lambda>kv. (fst kv, Data (snd kv))) kvs)"

text \<open>Everything the code can throw.\<close>

datatype error =
    Error string
  | TypeError string
  | EntityNotFoundError string
  | ForbiddenException string
  | AddPermissionException string
  | RemovePermissionException string

text \<open>JavaScript truthiness, as used by \<^verbatim>\<open>if (!x)\<close> and \<^verbatim>\<open>x ? a : b\<close>.\<close>

fun truthy :: "jsval \<Rightarrow> bool" where
  "truthy JUndefined = False"
| "truthy JNull = False"
| "truthy (JBool b) = b"
| "truthy (JNum n) = (n \<noteq> 0)"
| "truthy (JStr s) = (s \<noteq> [])"
| "truthy (JArr xs) = True"
| "truthy (JObj kvs) = True"

subsection \<open>Decimal strings of numbers\<close>

function string_of_nat :: "nat \<Rightarrow> string" where
  "string_of_nat n =
     (if n < 10 then [char_of (48 + n)]
      else string_of_nat (n div 10) @ [char_of (48 + n mod 10)])"
  by pat_completeness auto
termination
  by (relation "measure id") auto

declare string_of_nat.simps [simp del]

definition string_of_int :: "int \<Rightarrow> string" where
  "string_of_int i = (if i < 0 then CHR ''-'' # string_of_nat (nat (- i)) else string_of_nat (nat i))"

subsection \<open>Reading properties\<close>

text \<open>
  The index that a property key denotes in an array or string of length \<open>n\<close>: the key is
  the decimal string of an index below \<open>n\<close>.
\<close>

definition index_of_key :: "nat \<Rightarrow> string \<Rightarrow> nat option" where
  "index_of_key n key = find (\<lambda>i. string_of_nat i = key) [0..<n]"

text \<open>
  Property read \<^verbatim>\<open>obj[key]\<close>: a \<^verbatim>\<open>TypeError\<close> on \<^verbatim>\<open>null\<close> and \<^verbatim>\<open>undefined\<close>, the getter's
  exception on an accessor that raises, the element or character at an index and the
  \<^verbatim>\<open>length\<close> of an array or string, \<^verbatim>\<open>undefined\<close> for a property that is not there.
\<close>

fun getProp :: "jsval \<Rightarrow> string \<Rightarrow> error + jsval" where
  "getProp JUndefined key = Inl (TypeError ''Cannot read properties of undefined'')"
| "getProp JNull key = Inl (TypeError ''Cannot read properties of null'')"
| "getProp (JObj kvs) key =
     (case map_of kvs key of
        None \<Rightarrow> Inr JUndefined
      | Some (Accessor m) \<Rightarrow> Inl (Error m)
      | Some (Data v) \<Rightarrow> Inr v)"
| "getProp (JArr xs) key =
     Inr (if key = ''length'' then JNum (int (length xs))
          else (case index_of_key (length xs) key of
                  Some i \<Rightarrow> xs ! i
                | None \<Rightarrow> JUndefined))"
| "getProp (JStr s) key =
     Inr (if key = ''length'' then JNum (int (length s))
          else (case index_of_key (length s) key of
                  Some i \<Rightarrow> JStr [s ! i]
                | None \<Rightarrow> JUndefined))"
| "getProp v key = Inr JUndefined"

text \<open>\<^verbatim>\<open>Object.entries(obj)\<close> reads every own property before the loop body runs.\<close>

fun objectEntries :: "(string \<times> jsval slot) list \<Rightarrow> error + (string \<times> jsval) list" where
  "objectEntries [] = Inr []"
| "objectEntries ((k, Accessor m) # kvs) = Inl (Error m)"
| "objectEntries ((k, Data v) # kvs) =
     (case objectEntries kvs of Inl e \<Rightarrow> Inl e | Inr es \<Rightarrow> Inr ((k, v) # es))"

section \<open>Condition resolver (condition-resolver.service.ts)\<close>

text \<open>\<^verbatim>\<open>String.prototype.split('.')\<close>: the empty string gives one empty part.\<close>

fun split_on :: "char \<Rightarrow> string \<Rightarrow> string list" where
  "split_on c [] = [[]]"
| "split_on c (x # xs) =
     (if x = c then [] # split_on c xs
      else (case split_on c xs of
              [] \<Rightarrow> [[x]]
            | p # ps \<Rightarrow> (x # p) # ps))"

text \<open>
  The characters that \<^verbatim>\<open>.\<close> of a regular expression does not match (line feed, carriage
  return) and the white space \<^verbatim>\<open>trim()\<close> removes, among the 8-bit characters of a \<open>string\<close>.
\<close>

definition line_terminator :: "char \<Rightarrow> bool" where
  "line_terminator c \<longleftrightarrow> of_char c \<in> {10, 13 :: nat}"

definition white_space :: "char \<Rightarrow> bool" where
  "white_space c \<longleftrightarrow> of_char c \<in> {9, 10, 11, 12, 13, 32, 160 :: nat}"

definition trim :: "string \<Rightarrow> string" where
  "trim s = rev (dropWhile white_space (rev (dropWhile white_space s)))"

text \<open>
  \<^verbatim>\<open>str.match(/^\$\{(.+)\}$/)\<close>: the whole string is \<^verbatim>\<open>${\<close>, one or more characters other
  than line terminators, and a final \<^verbatim>\<open>}\<close>; the result is the captured group.
\<close>

definition match_template :: "string \<Rightarrow> string option" where
  "match_template str =
     (let inner = butlast (drop 2 str) in
      if 4 \<le> length str \<and> take 2 str = ''${'' \<and> last str = CHR ''}''
         \<and> (\<forall>c \<in> set inner. \<not> line_terminator c)
      then Some inner else None)"

text \<open>The loop of \<^verbatim>\<open>resolvePath\<close> over the parts of the path.\<close>

fun walk_parts :: "string list \<Rightarrow> jsval \<Rightarrow> error + jsval" where
  "walk_parts [] current = Inr current"
| "walk_parts (part # parts) current =
     (if current = JNull \<or> current = JUndefined then Inr JUndefined
      else (case getProp current part of
              Inl e \<Rightarrow> Inl e
            | Inr v \<Rightarrow> walk_parts parts v))"

definition resolvePath :: "string \<Rightarrow> jsval \<Rightarrow> error + jsval" where
  "resolvePath path user =
     (let normalizedPath = (if take 5 path = ''user.'' then drop 5 path else path);
          parts = split_on CHR ''.'' normalizedPath
      in walk_parts parts user)"

definition resolveString :: "string \<Rightarrow> jsval \<Rightarrow> error + jsval" where
  "resolveString str user =
     (case match_template str of
        None \<Rightarrow> Inr (JStr str)
      | Some m \<Rightarrow> resolvePath (trim m) user)"

text \<open>
  \<^verbatim>\<open>resolveObject\<close>: \<^verbatim>\<open>null\<close> and \<^verbatim>\<open>undefined\<close> as they are, arrays element by element,
  objects entry by entry, strings through \<^verbatim>\<open>resolveString\<close>, other primitives as they are.
\<close>

function (sequential) resolveObject :: "jsval \<Rightarrow> jsval \<Rightarrow> error + jsval"
  and resolveItems :: "jsval list \<Rightarrow> jsval \<Rightarrow> error + jsval list"
  and resolveEntries :: "(string \<times> jsval slot) list \<Rightarrow> jsval \<Rightarrow> error + (string \<times> jsval slot) list"
where
  "resolveObject JNull user = Inr JNull"
| "resolveObject JUndefined user = Inr JUndefined"
| "resolveObject (JArr xs) user =
     (case resolveItems xs user of Inl e \<Rightarrow> Inl e | Inr ys \<Rightarrow> Inr (JArr ys))"
| "resolveObject (JObj kvs) user =
     (case objectEntries kvs of
        Inl e \<Rightarrow> Inl e
      | Inr es \<Rightarrow> (case resolveEntries kvs user of
                    Inl e \<Rightarrow> Inl e
                  | Inr resolved \<Rightarrow> Inr (JObj resolved)))"
| "resolveObject (JStr s) user = resolveString s user"
| "resolveObject (JBool b) user = Inr (JBool b)"
| "resolveObject (JNum n) user = Inr (JNum n)"
| "resolveItems [] user = Inr []"
| "resolveItems (x # xs) user =
     (case resolveObject x user of
        Inl e \<Rightarrow> Inl e
      | Inr y \<Rightarrow> (case resolveItems xs user of
                   Inl e \<Rightarrow> Inl e
                 | Inr ys \<Rightarrow> Inr (y # ys)))"
| "resolveEntries [] user = Inr []"
| "resolveEntries ((key, Accessor m) # kvs) user = Inl (Error m)"
| "resolveEntries ((key, Data v) # kvs) user =
     (case resolveObject v user of
        Inl e \<Rightarrow> Inl e
      | Inr y \<Rightarrow> (case resolveEntries kvs user of
                   Inl e \<Rightarrow> Inl e
                 | Inr ys \<Rightarrow> Inr ((key, Data y) # ys)))"
  by pat_completeness auto
termination
  by (relation
        "measure (case_sum (\<lambda>p. size (fst p))
                   (case_sum (\<lambda>p. size_list size (fst p))
                      (\<lambda>p. size_list (size_prod (\<lambda>k. 0) (size_slot size)) (fst p))))")
     auto

text \<open>
  \<^verbatim>\<open>resolveConditions\<close>: \<^verbatim>\<open>undefined\<close> for falsy conditions; otherwise the resolved tree,
  and in the \<^verbatim>\<open>catch\<close> branch the conditions it was given. It has no way to raise.
\<close>

definition resolveConditions :: "jsval \<Rightarrow> jsval \<Rightarrow> jsval" where
  "resolveConditions conditions user =
     (if \<not> truthy conditions then JUndefined
      else (case resolveObject conditions user of
              Inr resolved \<Rightarrow> resolved
            | Inl error \<Rightarrow> conditions))"

section \<open>Rules and abilities (the @casl/ability calls of casl-ability.service.ts)\<close>

text \<open>
  A cached rule, as \<^verbatim>\<open>initRolesAbilities\<close> stores it: \<^verbatim>\<open>action\<close> and \<^verbatim>\<open>subject\<close> wrapped
  into arrays, \<^verbatim>\<open>fields\<close> (here \<open>rule_fields\<close>) an array or absent, \<^verbatim>\<open>conditions\<close> a value or \<^verbatim>\<open>undefined\<close>.
  \<^verbatim>\<open>inverted\<close> is read by the library as \<^verbatim>\<open>!!rule.inverted\<close>.
\<close>

record rule =
  action :: "string list"
  subject :: "string list"
  rule_fields :: "string list option"
  conditions :: jsval
  inverted :: bool
  reason :: "string option"

text \<open>
  \<^verbatim>\<open>createMongoAbility(rules)\<close> and \<^verbatim>\<open>ability.can(action, subject, field)\<close> are calls into
  the @casl/ability package. The definitions of this section follow the library: its
  \<^verbatim>\<open>Rule\<close> class (\<^verbatim>\<open>matchesConditions\<close>, \<^verbatim>\<open>matchesField\<close>, the validation of the
  constructor), its rule index (rules are indexed from the last declared to the first, under
  each of their actions and subjects, \<^verbatim>\<open>manage\<close> standing for any action and \<^verbatim>\<open>all\<close> for
  any subject type) and \<^verbatim>\<open>relevantRuleFor\<close>/\<^verbatim>\<open>can\<close> (the first rule of that order whose
  conditions match decides). The three options of an ability are parameters: how a
  conditions object is matched against an instance, how a field is matched against a
  field list, and how the subject type of an object (the name of its class) is detected.
\<close>

record casl_options =
  conditionsMatcher :: "jsval \<Rightarrow> jsval \<Rightarrow> error + bool"
  fieldMatcher :: "string list \<Rightarrow> string \<Rightarrow> bool"
  detectSubjectType :: "jsval \<Rightarrow> string"

type_synonym ability = "rule list"

text \<open>The constructor of \<^verbatim>\<open>Rule\<close> refuses an empty \<^verbatim>\<open>fields\<close> array.\<close>

definition createMongoAbility :: "rule list \<Rightarrow> error + ability" where
  "createMongoAbility rules =
     (if \<exists>r \<in> set rules. rule_fields r = Some []
      then Inl (Error ''rawRule.fields cannot be an empty array'')
      else Inr rules)"

text \<open>A string is a subject type; a falsy argument means any type; an object has its class.\<close>

definition subjectTypeOf :: "casl_options \<Rightarrow> jsval \<Rightarrow> string" where
  "subjectTypeOf opts s =
     (case s of
        JStr t \<Rightarrow> t
      | _ \<Rightarrow> if \<not> truthy s then ''all'' else detectSubjectType opts s)"

definition relevant :: "string \<Rightarrow> string \<Rightarrow> rule \<Rightarrow> bool" where
  "relevant act stype r \<longleftrightarrow>
     (act \<in> set (action r) \<or> ''manage'' \<in> set (action r))
     \<and> (stype \<in> set (subject r) \<or> ''all'' \<in> set (subject r))"

definition matchesField :: "casl_options \<Rightarrow> rule \<Rightarrow> string option \<Rightarrow> bool" where
  "matchesField opts r field =
     (case rule_fields r of
        None \<Rightarrow> True
      | Some fs \<Rightarrow> (case field of
                     None \<Rightarrow> \<not> inverted r
                   | Some f \<Rightarrow> if f = [] then \<not> inverted r else fieldMatcher opts fs f))"

definition matchesConditions :: "casl_options \<Rightarrow> rule \<Rightarrow> jsval \<Rightarrow> error + bool" where
  "matchesConditions opts r s =
     (if \<not> truthy (conditions r) then Inr True
      else (case s of
              JStr t \<Rightarrow> Inr (\<not> inverted r)
            | _ \<Rightarrow> if \<not> truthy s then Inr (\<not> inverted r)
                   else conditionsMatcher opts (conditions r) s))"

definition rulesFor :: "casl_options \<Rightarrow> ability \<Rightarrow> string \<Rightarrow> string \<Rightarrow> string option \<Rightarrow> rule list" where
  "rulesFor opts ab act stype field =
     filter (\<lambda>r. matchesField opts r field) (filter (relevant act stype) (rev ab))"

fun first_match :: "casl_options \<Rightarrow> rule list \<Rightarrow> jsval \<Rightarrow> error + rule option" where
  "first_match opts [] s = Inr None"
| "first_match opts (r # rs) s =
     (case matchesConditions opts r s of
        Inl e \<Rightarrow> Inl e
      | Inr matches \<Rightarrow> if matches then Inr (Some r) else first_match opts rs s)"

definition relevantRuleFor ::
  "casl_options \<Rightarrow> ability \<Rightarrow> string \<Rightarrow> jsval \<Rightarrow> string option \<Rightarrow> error + rule option" where
  "relevantRuleFor opts ab act s field =
     first_match opts (rulesFor opts ab act (subjectTypeOf opts s) field) s"

definition can :: "casl_options \<Rightarrow> ability \<Rightarrow> string \<Rightarrow> jsval \<Rightarrow> string option \<Rightarrow> error + bool" where
  "can opts ab act s field =
     (case relevantRuleFor opts ab act s field of
        Inl e \<Rightarrow> Inl e
      | Inr None \<Rightarrow> Inr False
      | Inr (Some r) \<Rightarrow> Inr (\<not> inverted r))"

subsection \<open>The conditions matcher of a Mongo ability\<close>

text \<open>
  \<^verbatim>\<open>===\<close> on values. Two objects or two arrays are equal only when they are the same
  object; identity is not represented, and a condition value is never the very object held
  by the instance, so they compare unequal.
\<close>

definition strict_eq :: "jsval \<Rightarrow> jsval \<Rightarrow> bool" where
  "strict_eq a b =
     (case a of
        JUndefined \<Rightarrow> b = JUndefined
      | JNull \<Rightarrow> b = JNull
      | JBool x \<Rightarrow> b = JBool x
      | JNum x \<Rightarrow> b = JNum x
      | JStr x \<Rightarrow> b = JStr x
      | _ \<Rightarrow> False)"

definition instruction_names :: "string list" where
  "instruction_names =
     [''$eq'', ''$ne'', ''$lt'', ''$lte'', ''$gt'', ''$gte'', ''$in'', ''$nin'', ''$all'',
      ''$size'', ''$regex'', ''$options'', ''$elemMatch'', ''$exists'']"

fun hasOperators :: "jsval \<Rightarrow> bool" where
  "hasOperators (JObj kvs) = (\<exists>k \<in> set (map fst kvs). k \<in> set instruction_names)"
| "hasOperators v = False"

text \<open>
  An entry \<^verbatim>\<open>key: value\<close> with a plain key and a value that is no operator document is an
  equality test on that property of the instance.
\<close>

definition equality_entry :: "string \<times> jsval slot \<Rightarrow> bool" where
  "equality_entry kv \<longleftrightarrow>
     CHR ''.'' \<notin> set (fst kv) \<and> fst kv \<notin> set instruction_names
     \<and> (case snd kv of Data v \<Rightarrow> \<not> hasOperators v | Accessor m \<Rightarrow> False)"

definition eq_interpret :: "string \<Rightarrow> jsval \<Rightarrow> jsval \<Rightarrow> error + bool" where
  "eq_interpret field expected object =
     (case getProp object field of
        Inl e \<Rightarrow> Inl e
      | Inr v \<Rightarrow> (case v of
                   JArr items \<Rightarrow>
                     (case expected of
                        JArr ys \<Rightarrow> Inr (strict_eq v expected)
                      | _ \<Rightarrow> Inr (\<exists>item \<in> set items. strict_eq item expected))
                 | _ \<Rightarrow> Inr (strict_eq v expected)))"

fun and_interpret :: "(string \<times> jsval slot) list \<Rightarrow> jsval \<Rightarrow> error + bool" where
  "and_interpret [] object = Inr True"
| "and_interpret ((k, Data v) # kvs) object =
     (case eq_interpret k v object of
        Inl e \<Rightarrow> Inl e
      | Inr b \<Rightarrow> if b then and_interpret kvs object else Inr False)"
| "and_interpret ((k, Accessor m) # kvs) object = Inl (Error m)"

fun isArray :: "jsval \<Rightarrow> bool" where
  "isArray (JArr xs) = True"
| "isArray v = False"

text \<open>
  \<^verbatim>\<open>mongoQueryMatcher\<close>, on the documents made of equality entries, matched against an
  instance that is no array. Every other document (operators, dotted paths, a value that is
  no object) and every array instance (over which the library projects the field) is left to
  \<open>ext\<close>, the behaviour of the library there, which this development does not look into.
\<close>

definition mongoQueryMatcher ::
  "(jsval \<Rightarrow> jsval \<Rightarrow> error + bool) \<Rightarrow> jsval \<Rightarrow> jsval \<Rightarrow> error + bool" where
  "mongoQueryMatcher ext query object =
     (case query of
        JObj kvs \<Rightarrow> if list_all equality_entry kvs \<and> \<not> isArray object
                    then and_interpret kvs object
                    else ext query object
      | _ \<Rightarrow> ext query object)"

text \<open>\<^verbatim>\<open>fieldPatternMatcher\<close>: membership unless some field holds a wildcard (left to \<open>pat\<close>).\<close>

definition fieldPatternMatcher ::
  "(string list \<Rightarrow> string \<Rightarrow> bool) \<Rightarrow> string list \<Rightarrow> string \<Rightarrow> bool" where
  "fieldPatternMatcher pat fs field =
     (if \<forall>f \<in> set fs. CHR ''*'' \<notin> set f then field \<in> set fs else pat fs field)"

definition mongo_options ::
  "(jsval \<Rightarrow> jsval \<Rightarrow> error + bool) \<Rightarrow> (string list \<Rightarrow> string \<Rightarrow> bool) \<Rightarrow> (jsval \<Rightarrow> string)
   \<Rightarrow> casl_options" where
  "mongo_options ext pat class_of =
     \<lparr>conditionsMatcher = mongoQueryMatcher ext,
      fieldMatcher = fieldPatternMatcher pat,
      detectSubjectType = class_of\<rparr>"

section \<open>CaslAbilityService (casl-ability.service.ts)\<close>

text \<open>\<^verbatim>\<open>roleAbilities\<close>, a \<^verbatim>\<open>Map\<close> from the numeric role id to the role's raw rules.\<close>

type_synonym roleAbilities = "int \<Rightarrow> rule list option"

definition roleAbilities_get :: "roleAbilities \<Rightarrow> jsval \<Rightarrow> rule list option" where
  "roleAbilities_get cache key = (case key of JNum n \<Rightarrow> cache n | _ \<Rightarrow> None)"

definition resolveRule :: "jsval \<Rightarrow> rule \<Rightarrow> rule" where
  "resolveRule user r =
     r\<lparr>conditions := (if truthy (conditions r) then resolveConditions (conditions r) user
                       else JUndefined)\<rparr>"

definition defineAbilityForUser :: "roleAbilities \<Rightarrow> jsval \<Rightarrow> error + ability option" where
  "defineAbilityForUser cache user =
     (case getProp user ''role'' of
        Inl e \<Rightarrow> Inl e
      | Inr role \<Rightarrow>
          if \<not> truthy role then Inr None
          else (case getProp role ''id'' of
                  Inl e \<Rightarrow> Inl e
                | Inr rid \<Rightarrow>
                    (case roleAbilities_get cache rid of
                       None \<Rightarrow> Inr None
                     | Some rawRules \<Rightarrow>
                         (case createMongoAbility (map (resolveRule user) rawRules) of
                            Inl e \<Rightarrow> Inl e
                          | Inr ab \<Rightarrow> Inr (Some ab)))))"

definition checkUserAbility ::
  "casl_options \<Rightarrow> roleAbilities \<Rightarrow> jsval \<Rightarrow> string \<Rightarrow> string \<Rightarrow> string option \<Rightarrow> error + bool" where
  "checkUserAbility opts cache user act subj field =
     (case defineAbilityForUser cache user of
        Inl e \<Rightarrow> Inl e
      | Inr None \<Rightarrow> Inr False
      | Inr (Some ab) \<Rightarrow>
          (case can opts ab act (JStr subj) field of
             Inl error \<Rightarrow> Inr False
           | Inr b \<Rightarrow> Inr b))"

definition checkUserAbilityWithConditions ::
  "casl_options \<Rightarrow> roleAbilities \<Rightarrow> jsval \<Rightarrow> string \<Rightarrow> jsval \<Rightarrow> string option \<Rightarrow> error + bool" where
  "checkUserAbilityWithConditions opts cache user act resource field =
     (case defineAbilityForUser cache user of
        Inl e \<Rightarrow> Inl e
      | Inr None \<Rightarrow> Inr False
      | Inr (Some ab) \<Rightarrow>
          (case can opts ab act resource field of
             Inl error \<Rightarrow> Inr False
           | Inr b \<Rightarrow> Inr b))"

section \<open>Strings of values\<close>

text \<open>
  \<^verbatim>\<open>String(v)\<close>, as a template literal and \<^verbatim>\<open>toString()\<close> compute it: an array is its
  elements joined by commas, with \<^verbatim>\<open>null\<close> and \<^verbatim>\<open>undefined\<close> elements empty.
\<close>

fun js_toString :: "jsval \<Rightarrow> string"
  and js_join :: "jsval list \<Rightarrow> string"
where
  "js_toString JUndefined = ''undefined''"
| "js_toString JNull = ''null''"
| "js_toString (JBool b) = (if b then ''true'' else ''false'')"
| "js_toString (JNum n) = string_of_int n"
| "js_toString (JStr s) = s"
| "js_toString (JArr xs) = js_join xs"
| "js_toString (JObj kvs) = ''[object Object]''"
| "js_join [] = []"
| "js_join (x # xs) =
     (if x = JNull \<or> x = JUndefined then [] else js_toString x)
     @ (if xs = [] then [] else CHR '','' # js_join xs)"

text \<open>Optional chaining: \<^verbatim>\<open>v?.[key]\<close> and \<^verbatim>\<open>v?.toString()\<close>.\<close>

definition optGetProp :: "jsval \<Rightarrow> string \<Rightarrow> error + jsval" where
  "optGetProp v key = (if v = JNull \<or> v = JUndefined then Inr JUndefined else getProp v key)"

definition optToString :: "jsval \<Rightarrow> jsval" where
  "optToString v = (if v = JNull \<or> v = JUndefined then JUndefined else JStr (js_toString v))"

section \<open>AccountService.checkPermission and HasPermissionsGuard\<close>

record checkPermissionDTO =
  dto_userId :: jsval
  dto_action :: string
  dto_subject :: string
  dto_field :: "string option"

text \<open>
  \<open>accounts\<close> is the account repository: the account with the given id, its role loaded,
  when there is one. \<^verbatim>\<open>findOneOrFail\<close> raises when there is none.
\<close>

definition checkPermission ::
  "casl_options \<Rightarrow> (jsval \<Rightarrow> jsval option) \<Rightarrow> roleAbilities \<Rightarrow> checkPermissionDTO \<Rightarrow> error + bool" where
  "checkPermission opts accounts cache dto =
     (case accounts (dto_userId dto) of
        None \<Rightarrow> Inl (EntityNotFoundError ''Account'')
      | Some user \<Rightarrow>
          checkUserAbility opts cache user (dto_action dto) (dto_subject dto) (dto_field dto))"

text \<open>The metadata of \<^verbatim>\<open>@HasPermissions\<close>; an absent \<^verbatim>\<open>checkResource\<close> is \<open>False\<close>.\<close>

record permissionMetadata =
  pm_action :: string
  pm_subject :: "string option"
  pm_field :: "string option"
  pm_checkResource :: bool

record request =
  req_user :: jsval
  req_params_id :: jsval
  req_method :: string

text \<open>
  What the guard reads from the execution context: the \<^verbatim>\<open>isPublic\<close> flag of the handler or
  class, the request, the \<^verbatim>\<open>permissions\<close> metadata of the handler and the \<^verbatim>\<open>path\<close> of the
  controller.
\<close>

record executionContext =
  ec_isPublic :: bool
  ec_request :: request
  ec_permissions :: "permissionMetadata option"
  ec_controllerPath :: "string option"

definition denied_message :: "string \<Rightarrow> string \<Rightarrow> string option \<Rightarrow> string" where
  "denied_message act subj field =
     ''You do not have permission to '' @ act @ '' '' @ subj
     @ (case field of
          None \<Rightarrow> []
        | Some f \<Rightarrow> if f = [] then [] else '' field: '' @ f)"

text \<open>
  \<^verbatim>\<open>canActivate\<close> of the permission guard. Beside its outcome it returns the list of the
  \<^verbatim>\<open>checkPermission\<close> calls it made: the only way it reaches the ability of the user.
\<close>

definition HasPermissionsGuard_canActivate ::
  "casl_options \<Rightarrow> (jsval \<Rightarrow> jsval option) \<Rightarrow> roleAbilities \<Rightarrow> executionContext
   \<Rightarrow> (error + bool) \<times> checkPermissionDTO list" where
  "HasPermissionsGuard_canActivate opts accounts cache ctx =
     (if ec_isPublic ctx then (Inr True, [])
      else
        let user = req_user (ec_request ctx) in
        if \<not> truthy user then (Inl (ForbiddenException ''User not authenticated''), [])
        else (case ec_permissions ctx of
          None \<Rightarrow> (Inr True, [])
        | Some permissions \<Rightarrow>
            (case (if pm_subject permissions \<noteq> None \<and> pm_subject permissions \<noteq> Some []
                   then pm_subject permissions
                   else (case ec_controllerPath ctx of
                           None \<Rightarrow> None
                         | Some controllerPath \<Rightarrow>
                             if controllerPath = [] then None else Some controllerPath)) of
               None \<Rightarrow> (Inl (ForbiddenException ''Permission subject not defined''), [])
             | Some subj \<Rightarrow>
                 if pm_checkResource permissions \<and> \<not> truthy (req_params_id (ec_request ctx))
                 then (Inl (ForbiddenException ''Resource ID required for permission check''), [])
                 else (case getProp user ''id'' of
                   Inl e \<Rightarrow> (Inl e, [])
                 | Inr uid \<Rightarrow>
                     let dto = \<lparr>dto_userId = uid, dto_action = pm_action permissions,
                                dto_subject = subj, dto_field = pm_field permissions\<rparr>
                     in (case checkPermission opts accounts cache dto of
                           Inl e \<Rightarrow> (Inl e, [dto])
                         | Inr hasPermission \<Rightarrow>
                             if hasPermission then (Inr True, [dto])
                             else if pm_checkResource permissions
                             then (Inl (ForbiddenException
                                     ''You do not have permission to perform this action''), [dto])
                             else (Inl (ForbiddenException
                                     (denied_message (pm_action permissions) subj
                                        (pm_field permissions))), [dto]))))))"

text \<open>
  \<^verbatim>\<open>JwtStrategy.validate\<close>: the user object that the JWT strategy puts on the request.
\<close>

definition JwtStrategy_validate :: "jsval \<Rightarrow> jsval \<Rightarrow> jsval" where
  "JwtStrategy_validate sub email = plainObj [(''id'', sub), (''email'', email)]"

section \<open>ResourceOwnerGuard\<close>

text \<open>
  The metadata of \<^verbatim>\<open>@CheckResourceOwner\<close>. \<open>resourceGetter\<close> is the outcome of the
  getter on a request: the resource, or the exception it raised.
\<close>

record resourceOwnerMetadata =
  resourceGetter :: "request \<Rightarrow> error + jsval"
  ownerField :: "string option"
  tenantField :: "string option"
  allowAdminOverride :: "bool option"

text \<open>\<^verbatim>\<open>path.split('.').reduce((current, prop) => current?.[prop], obj)\<close>\<close>

fun reduce_props :: "string list \<Rightarrow> jsval \<Rightarrow> error + jsval" where
  "reduce_props [] current = Inr current"
| "reduce_props (prop # props) current =
     (case optGetProp current prop of
        Inl e \<Rightarrow> Inl e
      | Inr v \<Rightarrow> reduce_props props v)"

definition getNestedProperty :: "jsval \<Rightarrow> string \<Rightarrow> error + jsval" where
  "getNestedProperty obj path = reduce_props (split_on CHR ''.'' path) obj"

definition toUpperCase :: "string \<Rightarrow> string" where
  "toUpperCase s =
     map (\<lambda>c. if 97 \<le> (of_char c :: nat) \<and> (of_char c :: nat) \<le> 122
               then char_of ((of_char c :: nat) - 32) else c) s"

definition mapMethodToAction :: "string \<Rightarrow> string" where
  "mapMethodToAction method =
     (case map_of [(''GET'', ''read''), (''POST'', ''create''), (''PATCH'', ''update''),
                   (''PUT'', ''update''), (''DELETE'', ''delete'')] (toUpperCase method) of
        Some a \<Rightarrow> a
      | None \<Rightarrow> ''read'')"

text \<open>
  \<^verbatim>\<open>ownerId === user.id || ownerId?.id === user.id || ownerId === user.id?.toString()\<close>
\<close>

definition isOwner :: "jsval \<Rightarrow> jsval \<Rightarrow> error + bool" where
  "isOwner ownerId uid =
     (if strict_eq ownerId uid then Inr True
      else (case optGetProp ownerId ''id'' of
              Inl e \<Rightarrow> Inl e
            | Inr oid \<Rightarrow> Inr (strict_eq oid uid \<or> strict_eq ownerId (optToString uid))))"

text \<open>The body of the \<^verbatim>\<open>try\<close> block of \<^verbatim>\<open>canActivate\<close>.\<close>

definition ownership_check ::
  "casl_options \<Rightarrow> roleAbilities \<Rightarrow> resourceOwnerMetadata \<Rightarrow> request \<Rightarrow> error + bool" where
  "ownership_check opts cache metadata req =
     (let user = req_user req;
          ownerField = (case ownerField metadata of None \<Rightarrow> ''ownerId'' | Some f \<Rightarrow> f);
          allowAdminOverride = (case allowAdminOverride metadata of None \<Rightarrow> True | Some b \<Rightarrow> b)
      in case resourceGetter metadata req of
        Inl e \<Rightarrow> Inl e
      | Inr resource \<Rightarrow>
          if \<not> truthy resource then Inl (ForbiddenException ''Resource not found'')
          else (case getNestedProperty resource ownerField of
            Inl e \<Rightarrow> Inl e
          | Inr ownerId \<Rightarrow>
              if \<not> truthy ownerId
              then Inl (ForbiddenException ''Cannot determine resource ownership'')
              else (case getProp user ''id'' of
                Inl e \<Rightarrow> Inl e
              | Inr uid \<Rightarrow>
                  (case isOwner ownerId uid of
                     Inl e \<Rightarrow> Inl e
                   | Inr owner \<Rightarrow>
                       if owner then Inr True
                       else if allowAdminOverride then
                         (case defineAbilityForUser cache user of
                            Inl e \<Rightarrow> Inl e
                          | Inr None \<Rightarrow>
                              Inl (ForbiddenException ''You can only access your own resources'')
                          | Inr (Some ab) \<Rightarrow>
                              (case can opts ab (mapMethodToAction (req_method req)) resource None of
                                 Inl e \<Rightarrow> Inl e
                               | Inr canAccess \<Rightarrow>
                                   if canAccess then Inr True
                                   else Inl (ForbiddenException
                                     ''You can only access your own resources unless you have override permissions'')))
                       else Inl (ForbiddenException ''You can only access your own resources'')))))"

definition ResourceOwnerGuard_canActivate ::
  "casl_options \<Rightarrow> roleAbilities \<Rightarrow> resourceOwnerMetadata option \<Rightarrow> request \<Rightarrow> error + bool" where
  "ResourceOwnerGuard_canActivate opts cache md req =
     (case md of
        None \<Rightarrow> Inr True
      | Some metadata \<Rightarrow>
          if \<not> truthy (req_user req) then Inl (ForbiddenException ''User not authenticated'')
          else (case ownership_check opts cache metadata req of
                  Inr b \<Rightarrow> Inr b
                | Inl (ForbiddenException m) \<Rightarrow> Inl (ForbiddenException m)
                | Inl error \<Rightarrow> Inl (ForbiddenException ''Error checking resource ownership'')))"

section \<open>AuditLogService (audit-log.service.ts)\<close>

text \<open>The members of \<^verbatim>\<open>AuditAction\<close> that the service writes.\<close>

datatype auditAction =
    GRANT_PERMISSION
  | REVOKE_PERMISSION
  | UPDATE_PERMISSION
  | UPDATE_ACCOUNT_ROLE
  | CREATE_ROLE
  | UPDATE_ROLE
  | DELETE_ROLE

record changes =
  changes_before :: jsval
  changes_after :: jsval

record logActionOptions =
  actor :: jsval
  audit_action :: auditAction
  entityType :: string
  entityId :: "string option"
  audit_changes :: "changes option"
  description :: "string option"
  ipAddress :: "string option"
  userAgent :: "string option"
  metadata :: jsval

text \<open>A stored \<^verbatim>\<open>AuditLog\<close> row: the options it was created from, under a generated id.\<close>

record auditLog =
  log_id :: nat
  log_entry :: logActionOptions

record permissionData =
  p_action :: jsval
  p_subject :: jsval
  p_fields :: jsval
  p_conditions :: jsval
  p_inverted :: jsval
  p_reason :: jsval

record permission =
  perm_id :: nat
  perm_data :: permissionData

record role =
  role_id :: nat
  role_name :: string
  role_permissions :: "permission list"

text \<open>
  The durable store behind the three repositories, and the calls of one operation that the
  store fails (each is made at most once by \<^verbatim>\<open>addPermission\<close> and \<^verbatim>\<open>removePermission\<close>).
  Nothing is transactional: what a call has written stays when a later call fails.
\<close>

record database =
  db_roles :: "nat \<Rightarrow> role option"
  db_permissions :: "nat \<Rightarrow> permission option"
  db_audit_logs :: "auditLog list"
  db_next_id :: nat

record faults =
  find_role_fails :: bool
  save_permission_fails :: bool
  save_role_fails :: bool
  delete_permission_fails :: bool
  save_audit_fails :: bool

text \<open>
  The \<^verbatim>\<open>try\<close> block of \<^verbatim>\<open>logAction\<close>: create and save the row, then write the log line,
  which reads \<^verbatim>\<open>actor?.email\<close>.
\<close>

definition logAction_try :: "faults \<Rightarrow> database \<Rightarrow> logActionOptions \<Rightarrow> (error + auditLog) \<times> database" where
  "logAction_try f db options =
     (if save_audit_fails f then (Inl (Error ''audit store unavailable''), db)
      else
        let savedLog = \<lparr>log_id = db_next_id db, log_entry = options\<rparr>;
            db' = db\<lparr>db_audit_logs := db_audit_logs db @ [savedLog],
                     db_next_id := Suc (db_next_id db)\<rparr>
        in (case optGetProp (actor options) ''email'' of
              Inl e \<Rightarrow> (Inl e, db')
            | Inr email \<Rightarrow> (Inr savedLog, db')))"

text \<open>\<^verbatim>\<open>logAction\<close>: the \<^verbatim>\<open>catch\<close> turns every exception into \<^verbatim>\<open>null\<close>.\<close>

definition logAction :: "faults \<Rightarrow> database \<Rightarrow> logActionOptions \<Rightarrow> auditLog option \<times> database" where
  "logAction f db options =
     (case logAction_try f db options of
        (Inr savedLog, db') \<Rightarrow> (Some savedLog, db')
      | (Inl error, db') \<Rightarrow> (None, db'))"

text \<open>
  The options that \<^verbatim>\<open>logPermissionGrant\<close> and \<^verbatim>\<open>logPermissionRevoke\<close> build from the
  permission they are given and from its \<^verbatim>\<open>action\<close> and \<^verbatim>\<open>subject\<close>.
\<close>

definition grantOptions ::
  "jsval \<Rightarrow> nat \<Rightarrow> jsval \<Rightarrow> jsval \<Rightarrow> jsval \<Rightarrow> string option \<Rightarrow> string option
   \<Rightarrow> logActionOptions" where
  "grantOptions act roleId perm a s ip ua =
     \<lparr>actor = act, audit_action = GRANT_PERMISSION, entityType = ''Permission'',
      entityId = Some (string_of_nat roleId),
      audit_changes = Some \<lparr>changes_before = JUndefined, changes_after = perm\<rparr>,
      description = Some (''Granted permission: '' @ js_toString a @ '' on '' @ js_toString s
                          @ '' to role '' @ string_of_nat roleId),
      ipAddress = ip, userAgent = ua, metadata = JUndefined\<rparr>"

definition revokeOptions ::
  "jsval \<Rightarrow> nat \<Rightarrow> nat \<Rightarrow> jsval \<Rightarrow> jsval \<Rightarrow> jsval \<Rightarrow> string option \<Rightarrow> string option
   \<Rightarrow> logActionOptions" where
  "revokeOptions act roleId permissionId perm a s ip ua =
     \<lparr>actor = act, audit_action = REVOKE_PERMISSION, entityType = ''Permission'',
      entityId = Some (string_of_nat permissionId),
      audit_changes = Some \<lparr>changes_before = perm, changes_after = JUndefined\<rparr>,
      description = Some (''Revoked permission: '' @ js_toString a @ '' on '' @ js_toString s
                          @ '' from role '' @ string_of_nat roleId),
      ipAddress = ip, userAgent = ua, metadata = JUndefined\<rparr>"

definition logPermissionGrant ::
  "faults \<Rightarrow> database \<Rightarrow> jsval \<Rightarrow> nat \<Rightarrow> jsval \<Rightarrow> string option \<Rightarrow> string option
   \<Rightarrow> (error + auditLog option) \<times> database" where
  "logPermissionGrant f db act roleId perm ip ua =
     (case getProp perm ''action'' of
        Inl e \<Rightarrow> (Inl e, db)
      | Inr a \<Rightarrow>
          (case getProp perm ''subject'' of
             Inl e \<Rightarrow> (Inl e, db)
           | Inr s \<Rightarrow>
               (case logAction f db (grantOptions act roleId perm a s ip ua) of
                  (r, db') \<Rightarrow> (Inr r, db'))))"

definition logPermissionRevoke ::
  "faults \<Rightarrow> database \<Rightarrow> jsval \<Rightarrow> nat \<Rightarrow> nat \<Rightarrow> jsval \<Rightarrow> string option \<Rightarrow> string option
   \<Rightarrow> (error + auditLog option) \<times> database" where
  "logPermissionRevoke f db act roleId permissionId perm ip ua =
     (case getProp perm ''action'' of
        Inl e \<Rightarrow> (Inl e, db)
      | Inr a \<Rightarrow>
          (case getProp perm ''subject'' of
             Inl e \<Rightarrow> (Inl e, db)
           | Inr s \<Rightarrow>
               (case logAction f db (revokeOptions act roleId permissionId perm a s ip ua) of
                  (r, db') \<Rightarrow> (Inr r, db'))))"

section \<open>RoleService (addPermission, removePermission)\<close>

text \<open>The snapshot of a permission that the service hands to the audit log.\<close>

definition snapshot :: "permission \<Rightarrow> jsval" where
  "snapshot p =
     plainObj [(''action'', p_action (perm_data p)), (''subject'', p_subject (perm_data p)),
               (''fields'', p_fields (perm_data p)), (''conditions'', p_conditions (perm_data p))]"

definition findRole :: "faults \<Rightarrow> database \<Rightarrow> nat \<Rightarrow> error + role" where
  "findRole f db roleId =
     (if find_role_fails f then Inl (Error ''role store unavailable'')
      else (case db_roles db roleId of
              None \<Rightarrow> Inl (EntityNotFoundError ''Role'')
            | Some r \<Rightarrow> Inr r))"

text \<open>The \<^verbatim>\<open>try\<close> block of \<^verbatim>\<open>addPermission\<close>.\<close>

definition addPermission_try ::
  "faults \<Rightarrow> database \<Rightarrow> nat \<Rightarrow> permissionData \<Rightarrow> jsval \<Rightarrow> string option \<Rightarrow> string option
   \<Rightarrow> (error + role) \<times> database" where
  "addPermission_try f db roleId perm act ip ua =
     (case findRole f db roleId of
        Inl e \<Rightarrow> (Inl e, db)
      | Inr r \<Rightarrow>
          if save_permission_fails f then (Inl (Error ''permission store unavailable''), db)
          else
            let savedPermission = \<lparr>perm_id = db_next_id db, perm_data = perm\<rparr>;
                db1 = db\<lparr>db_permissions := (db_permissions db)(perm_id savedPermission \<mapsto> savedPermission),
                         db_next_id := Suc (db_next_id db)\<rparr>;
                updatedRole = r\<lparr>role_permissions := role_permissions r @ [savedPermission]\<rparr>
            in if save_role_fails f then (Inl (Error ''role store unavailable''), db1)
               else
                 let db2 = db1\<lparr>db_roles := (db_roles db1)(role_id updatedRole \<mapsto> updatedRole)\<rparr>
                 in if truthy act
                    then (case logPermissionGrant f db2 act roleId (snapshot savedPermission) ip ua of
                            (Inl e, db3) \<Rightarrow> (Inl e, db3)
                          | (Inr logged, db3) \<Rightarrow> (Inr updatedRole, db3))
                    else (Inr updatedRole, db2))"

definition addPermission ::
  "faults \<Rightarrow> database \<Rightarrow> nat \<Rightarrow> permissionData \<Rightarrow> jsval \<Rightarrow> string option \<Rightarrow> string option
   \<Rightarrow> (error + role) \<times> database" where
  "addPermission f db roleId perm act ip ua =
     (case addPermission_try f db roleId perm act ip ua of
        (Inr updatedRole, db') \<Rightarrow> (Inr updatedRole, db')
      | (Inl error, db') \<Rightarrow>
          (Inl (AddPermissionException
                  (''error adding permission to role id '' @ string_of_nat roleId)), db'))"

text \<open>
  The end of the \<^verbatim>\<open>try\<close> block of \<^verbatim>\<open>removePermission\<close>: the role is saved without
  the permission, then the permission row is deleted. The result is the number of rows
  that \<^verbatim>\<open>delete\<close> affected.
\<close>

definition detachAndDelete ::
  "faults \<Rightarrow> database \<Rightarrow> role \<Rightarrow> string \<Rightarrow> permission \<Rightarrow> (error + nat) \<times> database" where
  "detachAndDelete f db r permissionId permissionToRemove =
     (let r' = r\<lparr>role_permissions :=
                  filter (\<lambda>p. string_of_nat (perm_id p) \<noteq> permissionId) (role_permissions r)\<rparr>
      in if save_role_fails f then (Inl (Error ''role store unavailable''), db)
         else
           let db2 = db\<lparr>db_roles := (db_roles db)(role_id r' \<mapsto> r')\<rparr>
           in if delete_permission_fails f
              then (Inl (Error ''permission store unavailable''), db2)
              else (Inr (if db_permissions db2 (perm_id permissionToRemove) = None then 0 else 1),
                    db2\<lparr>db_permissions :=
                          (db_permissions db2)(perm_id permissionToRemove := None)\<rparr>))"

text \<open>
  The \<^verbatim>\<open>try\<close> block of \<^verbatim>\<open>removePermission\<close>. The permission is looked up by the string
  of its id; the audit entry is written before the role is saved and the row deleted.
\<close>

definition removePermission_try ::
  "faults \<Rightarrow> database \<Rightarrow> nat \<Rightarrow> string \<Rightarrow> jsval \<Rightarrow> string option \<Rightarrow> string option
   \<Rightarrow> (error + nat) \<times> database" where
  "removePermission_try f db roleId permissionId act ip ua =
     (case findRole f db roleId of
        Inl e \<Rightarrow> (Inl e, db)
      | Inr r \<Rightarrow>
          (case find (\<lambda>p. string_of_nat (perm_id p) = permissionId) (role_permissions r) of
             None \<Rightarrow> (Inl (Error (''Permission with id '' @ permissionId @ '' not found in role ''
                                  @ string_of_nat roleId)), db)
           | Some permissionToRemove \<Rightarrow>
               if truthy act
               then (case logPermissionRevoke f db act roleId (perm_id permissionToRemove)
                            (snapshot permissionToRemove) ip ua of
                       (Inl e, db1) \<Rightarrow> (Inl e, db1)
                     | (Inr logged, db1) \<Rightarrow>
                         detachAndDelete f db1 r permissionId permissionToRemove)
               else detachAndDelete f db r permissionId permissionToRemove))"

definition removePermission ::
  "faults \<Rightarrow> database \<Rightarrow> nat \<Rightarrow> string \<Rightarrow> jsval \<Rightarrow> string option \<Rightarrow> string option
   \<Rightarrow> (error + nat) \<times> database" where
  "removePermission f db roleId permissionId act ip ua =
     (case removePermission_try f db roleId permissionId act ip ua of
        (Inr deleted, db') \<Rightarrow> (Inr deleted, db')
      | (Inl error, db') \<Rightarrow>
          (Inl (RemovePermissionException
                  (''Error removing permission ('' @ permissionId @ '') from role (''
                   @ string_of_nat roleId @ '')'')), db'))"

subsection \<open>The store between the steps of a mutation\<close>

text \<open>After \<^verbatim>\<open>addPermission\<close> has saved the permission and the role.\<close>

definition afterGrant :: "database \<Rightarrow> role \<Rightarrow> permissionData \<Rightarrow> database" where
  "afterGrant db r perm =
     db\<lparr>db_permissions := (db_permissions db)(db_next_id db \<mapsto>
            \<lparr>perm_id = db_next_id db, perm_data = perm\<rparr>),
        db_next_id := Suc (db_next_id db),
        db_roles := (db_roles db)(role_id r \<mapsto>
            r\<lparr>role_permissions := role_permissions r
                 @ [\<lparr>perm_id = db_next_id db, perm_data = perm\<rparr>]\<rparr>)\<rparr>"

text \<open>After \<^verbatim>\<open>removePermission\<close> has written its audit entry, if it writes one.\<close>

definition afterRevoke :: "faults \<Rightarrow> database \<Rightarrow> nat \<Rightarrow> string \<Rightarrow> role \<Rightarrow> permission \<Rightarrow> jsval
   \<Rightarrow> string option \<Rightarrow> string option \<Rightarrow> database" where
  "afterRevoke f db roleId permissionId r p act ip ua =
     (if truthy act
      then snd (logAction f db (revokeOptions act roleId (perm_id p) (snapshot p)
                  (p_action (perm_data p)) (p_subject (perm_data p)) ip ua))
      else db)"

section \<open>Concrete inputs for the closed statements\<close>

text \<open>
  A Mongo ability whose rules and queries stay within equality documents and literal field
  names, over resources of one class, \<^verbatim>\<open>Course\<close>.
\<close>

definition example_options :: casl_options where
  "example_options =
     mongo_options (\<lambda>query object. Inl (Error ''operator document''))
       (\<lambda>fs field. False) (\<lambda>object. ''Course'')"

definition example_rule :: "string list \<Rightarrow> jsval \<Rightarrow> bool \<Rightarrow> rule" where
  "example_rule acts conds forbid =
     \<lparr>action = acts, subject = [''Course''], rule_fields = None, conditions = conds,
      inverted = forbid, reason = None\<rparr>"

text \<open>A user with id 5 and role 1, with and without a company.\<close>

definition example_user :: jsval where
  "example_user = plainObj [(''id'', JNum 5), (''role'', plainObj [(''id'', JNum 1)])]"

definition example_company_user :: jsval where
  "example_company_user =
     plainObj [(''id'', JNum 5), (''companyId'', JNum 42), (''role'', plainObj [(''id'', JNum 1)])]"

text \<open>A request of that user on a handler with the given permission metadata.\<close>

definition example_metadata :: permissionMetadata where
  "example_metadata =
     \<lparr>pm_action = ''read'', pm_subject = Some ''Course'', pm_field = None,
      pm_checkResource = False\<rparr>"

definition example_context :: "jsval \<Rightarrow> permissionMetadata option \<Rightarrow> executionContext" where
  "example_context user md =
     \<lparr>ec_isPublic = False,
      ec_request = \<lparr>req_user = user, req_params_id = JStr ''3'', req_method = ''GET''\<rparr>,
      ec_permissions = md, ec_controllerPath = Some ''courses''\<rparr>"

text \<open>The condition of the tenant-isolation rules, and the values that count as concrete.\<close>

definition companyId_template :: jsval where
  "companyId_template = plainObj [(''companyId'', JStr ''${user.companyId}'')]"

definition concrete :: "jsval \<Rightarrow> bool" where
  "concrete v = (case v of JBool b \<Rightarrow> True | JNum n \<Rightarrow> True | JStr s \<Rightarrow> True | _ \<Rightarrow> False)"

text \<open>A store with one role holding one permission, and the store whose calls all succeed.\<close>

definition example_permission :: permissionData where
  "example_permission =
     \<lparr>p_action = JArr [JStr ''read''], p_subject = JStr ''Course'', p_fields = JUndefined,
      p_conditions = JUndefined, p_inverted = JBool False, p_reason = JUndefined\<rparr>"

definition example_db :: database where
  "example_db =
     \<lparr>db_roles = Map.empty (1 \<mapsto>
        \<lparr>role_id = 1, role_name = ''editor'',
         role_permissions = [\<lparr>perm_id = 7, perm_data = example_permission\<rparr>]\<rparr>),
      db_permissions = Map.empty (7 \<mapsto> \<lparr>perm_id = 7, perm_data = example_permission\<rparr>),
      db_audit_logs = [], db_next_id = 8\<rparr>"

definition no_faults :: faults where
  "no_faults =
     \<lparr>find_role_fails = False, save_permission_fails = False, save_role_fails = False,
      delete_permission_fails = False, save_audit_fails = False\<rparr>"

text \<open>
  A \<^verbatim>\<open>PATCH\<close> request of the example user on a handler whose ownership metadata leaves
  \<^verbatim>\<open>ownerField\<close> and \<^verbatim>\<open>allowAdminOverride\<close> to their defaults and fetches the given resource.
\<close>

definition example_owner_metadata :: "jsval \<Rightarrow> resourceOwnerMetadata" where
  "example_owner_metadata resource =
     \<lparr>resourceGetter = (\<lambda>req. Inr resource), ownerField = None, tenantField = None,
      allowAdminOverride = None\<rparr>"

definition example_patch :: request where
  "example_patch = \<lparr>req_user = example_user, req_params_id = JStr ''3'', req_method = ''PATCH''\<rparr>"

section \<open>Condition resolver: properties\<close>

lemma resolveObject_falsy: "\<not> truthy c \<Longrightarrow> \<exists>v. resolveObject c user = Inr v"
  by (cases c) (auto simp: resolveString_def match_template_def)

text \<open>
  C6. For every conditions value and every user: when the recursive resolution of the
  condition tree raises, \<^verbatim>\<open>resolveConditions\<close> returns the conditions it was given,
  unchanged. Its result is a value, never an exception.
\<close>

theorem resolveConditions_fallback:
  "resolveObject conds user = Inl e \<Longrightarrow> resolveConditions conds user = conds"
  using resolveObject_falsy [of conds user]
  by (auto simp: resolveConditions_def)

theorem resolveConditions_fallback_witness:
  "resolveObject (plainObj [(''companyId'', JStr ''${user.companyId}'')])
     (JObj [(''companyId'', Accessor ''getter failed'')]) = Inl (Error ''getter failed'')
   \<and> resolveConditions (plainObj [(''companyId'', JStr ''${user.companyId}'')])
     (JObj [(''companyId'', Accessor ''getter failed'')])
     = plainObj [(''companyId'', JStr ''${user.companyId}'')]"
proof -
  have h: "resolveObject (plainObj [(''companyId'', JStr ''${user.companyId}'')])
     (JObj [(''companyId'', Accessor ''getter failed'')]) = Inl (Error ''getter failed'')"
    by code_simp
  from resolveConditions_fallback [OF h] h show ?thesis by simp
qed

section \<open>Ability compilation and evaluation: properties\<close>

text \<open>
  C4. For every user whose \<^verbatim>\<open>role\<close> is absent (\<^verbatim>\<open>null\<close>, \<^verbatim>\<open>undefined\<close> or any falsy
  value), \<^verbatim>\<open>defineAbilityForUser\<close> returns \<^verbatim>\<open>undefined\<close>, and both permission checks
  return \<^verbatim>\<open>false\<close> for every action, subject or resource, and field.
\<close>

theorem no_role_no_permission:
  assumes "getProp user ''role'' = Inr role" and "\<not> truthy role"
  shows "defineAbilityForUser cache user = Inr None
     \<and> checkUserAbility opts cache user act subj field = Inr False
     \<and> checkUserAbilityWithConditions opts cache user act resource field = Inr False"
  using assms
  by (simp add: defineAbilityForUser_def checkUserAbility_def checkUserAbilityWithConditions_def)

theorem no_role_no_permission_witness:
  "getProp (plainObj [(''id'', JNum 5), (''role'', JNull)]) ''role'' = Inr JNull
   \<and> \<not> truthy JNull
   \<and> defineAbilityForUser (Map.empty (1 \<mapsto> [example_rule [''manage''] JUndefined False]))
        (plainObj [(''id'', JNum 5), (''role'', JNull)]) = Inr None
   \<and> checkUserAbility example_options
        (Map.empty (1 \<mapsto> [example_rule [''manage''] JUndefined False]))
        (plainObj [(''id'', JNum 5), (''role'', JNull)]) ''read'' ''Course'' None = Inr False
   \<and> checkUserAbilityWithConditions example_options
        (Map.empty (1 \<mapsto> [example_rule [''manage''] JUndefined False]))
        (plainObj [(''id'', JNum 5), (''role'', JNull)]) ''read''
        (plainObj [(''id'', JNum 3)]) (Some ''title'') = Inr False"
proof -
  have h: "getProp (plainObj [(''id'', JNum 5), (''role'', JNull)]) ''role'' = Inr JNull"
    by (simp add: plainObj_def)
  have t: "\<not> truthy JNull" by simp
  from no_role_no_permission [OF h t] h show ?thesis by simp
qed

lemma checkUserAbility_string:
  "checkUserAbility opts cache user act subj field
     = checkUserAbilityWithConditions opts cache user act (JStr subj) field"
  by (simp add: checkUserAbility_def checkUserAbilityWithConditions_def)

lemma first_match_inverted:
  assumes "matchesConditions opts r s = Inr True" and "inverted r"
    and "\<forall>g \<in> set xs. matchesConditions opts g s = Inr True \<longrightarrow> inverted g"
  shows "(\<exists>e. first_match opts (xs @ r # ys) s = Inl e)
     \<or> (\<exists>g. first_match opts (xs @ r # ys) s = Inr (Some g) \<and> inverted g)"
  using assms
proof (induction xs)
  case Nil
  then show ?case by simp
next
  case (Cons x xs)
  show ?case
  proof (cases "matchesConditions opts x s")
    case (Inl e)
    then show ?thesis by simp
  next
    case (Inr b)
    show ?thesis
    proof (cases b)
      case True
      with Inr Cons.prems have "inverted x" by simp
      with Inr True show ?thesis by simp
    next
      case False
      with Inr Cons show ?thesis by simp
    qed
  qed
qed

lemma rulesFor_split:
  assumes "relevant act stype r" and "matchesField opts r field"
  shows "rulesFor opts (pre @ r # post) act stype field
     = rulesFor opts post act stype field @ r # rulesFor opts pre act stype field"
  using assms by (simp add: rulesFor_def)

lemma set_rulesFor:
  "g \<in> set (rulesFor opts ab act stype field)
     \<longleftrightarrow> g \<in> set ab \<and> relevant act stype g \<and> matchesField opts g field"
  by (auto simp: rulesFor_def)

lemma can_forbidden:
  assumes "inverted r" and "relevant act (subjectTypeOf opts s) r"
    and "matchesField opts r field" and "matchesConditions opts r s = Inr True"
    and "\<forall>g \<in> set post. relevant act (subjectTypeOf opts s) g \<and> matchesField opts g field
            \<and> matchesConditions opts g s = Inr True \<longrightarrow> inverted g"
  shows "can opts (pre @ r # post) act s field \<noteq> Inr True"
proof -
  let ?t = "subjectTypeOf opts s"
  have later: "\<forall>g \<in> set (rulesFor opts post act ?t field).
                 matchesConditions opts g s = Inr True \<longrightarrow> inverted g"
    using assms(5) by (simp add: set_rulesFor)
  have "(\<exists>e. relevantRuleFor opts (pre @ r # post) act s field = Inl e)
      \<or> (\<exists>g. relevantRuleFor opts (pre @ r # post) act s field = Inr (Some g) \<and> inverted g)"
    unfolding relevantRuleFor_def rulesFor_split [OF assms(2,3)]
    by (rule first_match_inverted [OF assms(4) assms(1) later])
  then show ?thesis by (auto simp: can_def)
qed

text \<open>
  C1, as the code has it. The rules of an ability are tried from the last declared to the
  first, and the first one that matches decides. So for every compiled ability and every
  action, subject or instance, and field: when a rule with \<^verbatim>\<open>inverted = true\<close> matches the
  tuple (its conditions against the instance included) and every rule declared after it
  that matches the tuple is inverted too, the check returns \<^verbatim>\<open>false\<close>. A matching inverted
  rule prevails over every grant declared before it, not over a matching grant declared
  after it.
\<close>

theorem last_matching_forbid_wins:
  assumes "defineAbilityForUser cache user = Inr (Some (pre @ r # post))"
    and "inverted r" and "relevant act (subjectTypeOf opts s) r"
    and "matchesField opts r field" and "matchesConditions opts r s = Inr True"
    and "\<forall>g \<in> set post. relevant act (subjectTypeOf opts s) g \<and> matchesField opts g field
            \<and> matchesConditions opts g s = Inr True \<longrightarrow> inverted g"
  shows "checkUserAbilityWithConditions opts cache user act s field = Inr False
     \<and> (\<forall>subj. s = JStr subj \<longrightarrow> checkUserAbility opts cache user act subj field = Inr False)"
proof -
  have "can opts (pre @ r # post) act s field \<noteq> Inr True"
    by (rule can_forbidden [OF assms(2-6)])
  then have "checkUserAbilityWithConditions opts cache user act s field = Inr False"
    using assms(1) by (auto simp: checkUserAbilityWithConditions_def split: sum.splits)
  then show ?thesis by (auto simp: checkUserAbility_string)
qed

theorem last_matching_forbid_wins_witness:
  "checkUserAbilityWithConditions example_options
        (Map.empty (1 \<mapsto>
           [example_rule [''read''] JUndefined False,
            example_rule [''read''] (plainObj [(''archived'', JBool True)]) True,
            example_rule [''manage''] (plainObj [(''archived'', JBool False)]) False]))
        example_user ''read'' (plainObj [(''id'', JNum 3), (''archived'', JBool True)]) None
      = Inr False"
proof -
  let ?g = "example_rule [''read''] JUndefined False"
  let ?r = "example_rule [''read''] (plainObj [(''archived'', JBool True)]) True"
  let ?h = "example_rule [''manage''] (plainObj [(''archived'', JBool False)]) False"
  let ?s = "plainObj [(''id'', JNum 3), (''archived'', JBool True)]"
  have a: "defineAbilityForUser (Map.empty (1 \<mapsto> [?g, ?r, ?h])) example_user
             = Inr (Some ([?g] @ ?r # [?h]))"
    by code_simp
  have i: "inverted ?r" by code_simp
  have rel: "relevant ''read'' (subjectTypeOf example_options ?s) ?r" by code_simp
  have f: "matchesField example_options ?r None" by code_simp
  have m: "matchesConditions example_options ?r ?s = Inr True" by code_simp
  have n: "matchesConditions example_options ?h ?s = Inr False" by code_simp
  have p: "\<forall>g \<in> set [?h]. relevant ''read'' (subjectTypeOf example_options ?s) g
             \<and> matchesField example_options g None
             \<and> matchesConditions example_options g ?s = Inr True \<longrightarrow> inverted g"
    using n by simp
  from last_matching_forbid_wins [OF a i rel f m p] show ?thesis by simp
qed

text \<open>
  The claim as the specification words it fails: an inverted rule matches the tuple, a grant
  for the same tuple is declared after it, and the check returns \<^verbatim>\<open>true\<close>.
\<close>

theorem later_grant_overrides_forbid:
  "inverted (example_rule [''read''] (plainObj [(''archived'', JBool True)]) True)
   \<and> relevant ''read'' ''Course''
        (example_rule [''read''] (plainObj [(''archived'', JBool True)]) True)
   \<and> matchesConditions example_options
        (example_rule [''read''] (plainObj [(''archived'', JBool True)]) True)
        (plainObj [(''id'', JNum 3), (''archived'', JBool True)]) = Inr True
   \<and> checkUserAbilityWithConditions example_options
        (Map.empty (1 \<mapsto>
           [example_rule [''read''] (plainObj [(''archived'', JBool True)]) True,
            example_rule [''read''] JUndefined False]))
        example_user ''read'' (plainObj [(''id'', JNum 3), (''archived'', JBool True)]) None
      = Inr True"
  by code_simp

section \<open>Permission guard: properties\<close>

lemma getProp_not_forbidden: "getProp v k \<noteq> Inl (ForbiddenException m)"
  by (cases v) (auto split: option.splits slot.splits)

lemma defineAbilityForUser_not_forbidden:
  "defineAbilityForUser cache user \<noteq> Inl (ForbiddenException m)"
  using getProp_not_forbidden
  by (auto simp: defineAbilityForUser_def createMongoAbility_def
           split: sum.splits option.splits if_splits)

lemma checkPermission_not_forbidden:
  "checkPermission opts accounts cache dto \<noteq> Inl (ForbiddenException m)"
  using defineAbilityForUser_not_forbidden
  by (auto simp: checkPermission_def checkUserAbility_def split: sum.splits option.splits)

lemma denied_message_distinct: "denied_message act subj field \<noteq> ''User not authenticated''"
  by (simp add: denied_message_def)

lemma guard_trace_not_unauthenticated:
  assumes "snd (HasPermissionsGuard_canActivate opts accounts cache ctx) \<noteq> []"
  shows "fst (HasPermissionsGuard_canActivate opts accounts cache ctx)
           \<noteq> Inl (ForbiddenException ''User not authenticated'')"
  using assms checkPermission_not_forbidden denied_message_distinct
  by (auto simp: HasPermissionsGuard_canActivate_def Let_def
           split: if_splits option.splits sum.splits)

text \<open>
  C5. For every request on an operation that is not public, with an acting user, whose
  handler carries no permission metadata, the guard returns \<^verbatim>\<open>true\<close> and makes no
  \<^verbatim>\<open>checkPermission\<close> call: whatever the account store and the rule cache hold, the
  ability of the user is neither compiled nor consulted.
\<close>

theorem guard_without_metadata:
  assumes "\<not> ec_isPublic ctx" and "truthy (req_user (ec_request ctx))"
    and "ec_permissions ctx = None"
  shows "HasPermissionsGuard_canActivate opts accounts cache ctx = (Inr True, [])"
  using assms by (simp add: HasPermissionsGuard_canActivate_def)

theorem guard_without_metadata_witness:
  "\<not> ec_isPublic (example_context example_user None)
   \<and> truthy (req_user (ec_request (example_context example_user None)))
   \<and> ec_permissions (example_context example_user None) = None
   \<and> HasPermissionsGuard_canActivate example_options Map.empty Map.empty
        (example_context example_user None) = (Inr True, [])"
proof -
  have a: "\<not> ec_isPublic (example_context example_user None)"
    by (simp add: example_context_def)
  have b: "truthy (req_user (ec_request (example_context example_user None)))"
    by (simp add: example_context_def example_user_def plainObj_def)
  have c: "ec_permissions (example_context example_user None) = None"
    by (simp add: example_context_def)
  from guard_without_metadata [OF a b c, of example_options Map.empty Map.empty] a b c
  show ?thesis by simp
qed

text \<open>
  C8. For every request on an operation that is not public, with no acting user, the guard
  raises \<^verbatim>\<open>ForbiddenException('User not authenticated')\<close> without having made any
  \<^verbatim>\<open>checkPermission\<close> call. No run of the guard that did reach \<^verbatim>\<open>checkPermission\<close> ends
  in that rejection: the rejections for a missing grant carry other messages.
\<close>

theorem guard_unauthenticated:
  assumes "\<not> ec_isPublic ctx" and "\<not> truthy (req_user (ec_request ctx))"
  shows "HasPermissionsGuard_canActivate opts accounts cache ctx
           = (Inl (ForbiddenException ''User not authenticated''), [])
     \<and> (\<forall>c. snd (HasPermissionsGuard_canActivate opts accounts cache c) \<noteq> []
            \<longrightarrow> fst (HasPermissionsGuard_canActivate opts accounts cache c)
                  \<noteq> Inl (ForbiddenException ''User not authenticated''))"
  using assms guard_trace_not_unauthenticated
  by (simp add: HasPermissionsGuard_canActivate_def)

theorem guard_unauthenticated_witness:
  "\<not> ec_isPublic (example_context JUndefined (Some example_metadata))
   \<and> \<not> truthy (req_user (ec_request (example_context JUndefined (Some example_metadata))))
   \<and> HasPermissionsGuard_canActivate example_options Map.empty Map.empty
        (example_context JUndefined (Some example_metadata))
      = (Inl (ForbiddenException ''User not authenticated''), [])
   \<and> snd (HasPermissionsGuard_canActivate example_options Map.empty Map.empty
        (example_context example_user (Some example_metadata))) \<noteq> []
   \<and> fst (HasPermissionsGuard_canActivate example_options Map.empty Map.empty
        (example_context example_user (Some example_metadata)))
      \<noteq> Inl (ForbiddenException ''User not authenticated'')"
proof -
  have a: "\<not> ec_isPublic (example_context JUndefined (Some example_metadata))"
    by (simp add: example_context_def)
  have b: "\<not> truthy (req_user (ec_request (example_context JUndefined (Some example_metadata))))"
    by (simp add: example_context_def)
  have t: "snd (HasPermissionsGuard_canActivate example_options Map.empty Map.empty
        (example_context example_user (Some example_metadata))) \<noteq> []"
    by code_simp
  from guard_unauthenticated [OF a b, of example_options Map.empty Map.empty] a b t
  show ?thesis by simp
qed

section \<open>Tenant isolation by a company template: properties\<close>

lemma resolveString_companyId:
  "resolveString ''${user.companyId}'' user = walk_parts [''companyId''] user"
proof -
  have m: "match_template ''${user.companyId}'' = Some ''user.companyId''" by code_simp
  have t: "trim ''user.companyId'' = ''user.companyId''" by code_simp
  have s: "split_on CHR ''.'' ''companyId'' = [''companyId'']" by code_simp
  show ?thesis by (simp add: resolveString_def m t resolvePath_def s)
qed

lemma resolve_companyId_present:
  assumes "map_of kvs ''companyId'' = Some (Data v)"
  shows "resolveConditions companyId_template (JObj kvs) = plainObj [(''companyId'', v)]"
  using assms
  by (simp add: resolveConditions_def companyId_template_def plainObj_def resolveString_companyId)

lemma resolve_companyId_absent:
  assumes "map_of kvs ''companyId'' = None"
  shows "resolveConditions companyId_template (JObj kvs) = plainObj [(''companyId'', JUndefined)]"
  using assms
  by (simp add: resolveConditions_def companyId_template_def plainObj_def resolveString_companyId)

lemma unresolved_no_match:
  assumes "map_of rkvs ''companyId'' = Some (Data v)" and "concrete v"
  shows "mongoQueryMatcher ext (plainObj [(''companyId'', JUndefined)]) (JObj rkvs) = Inr False"
proof -
  have e: "equality_entry (''companyId'', Data JUndefined)"
    by (simp add: equality_entry_def instruction_names_def)
  have "eq_interpret ''companyId'' JUndefined (JObj rkvs) = Inr False"
    using assms by (cases v) (simp_all add: eq_interpret_def concrete_def strict_eq_def)
  then show ?thesis by (simp add: mongoQueryMatcher_def plainObj_def e)
qed

lemma first_match_none:
  "\<forall>r \<in> set rs. matchesConditions opts r s = Inr False \<Longrightarrow> first_match opts rs s = Inr None"
  by (induction rs) simp_all

lemma createMongoAbility_resolved:
  assumes "\<forall>r \<in> set rules. rule_fields r \<noteq> Some []"
  shows "createMongoAbility (map (resolveRule user) rules) = Inr (map (resolveRule user) rules)"
  using assms by (auto simp: createMongoAbility_def resolveRule_def)

text \<open>
  C2. Resolving \<^verbatim>\<open>{companyId: "${user.companyId}"}\<close> against a user whose \<^verbatim>\<open>companyId\<close> is 42
  gives \<^verbatim>\<open>{companyId: 42}\<close>; against a user with no \<^verbatim>\<open>companyId\<close> it gives
  \<^verbatim>\<open>{companyId: undefined}\<close>. For such a user, whose role is cached and has only rules
  under that condition, \<^verbatim>\<open>checkUserAbilityWithConditions\<close> returns \<^verbatim>\<open>false\<close> on every
  resource object whose \<^verbatim>\<open>companyId\<close> is a boolean, a number or a string, for every action
  and field: the unresolved template matches no such instance.
\<close>

theorem companyId_template_resolution:
  "(map_of kvs ''companyId'' = Some (Data (JNum 42))
      \<longrightarrow> resolveConditions companyId_template (JObj kvs) = plainObj [(''companyId'', JNum 42)])
   \<and> (map_of kvs ''companyId'' = None
      \<longrightarrow> resolveConditions companyId_template (JObj kvs) = plainObj [(''companyId'', JUndefined)])
   \<and> (map_of kvs ''companyId'' = None
       \<and> getProp (JObj kvs) ''role'' = Inr role \<and> truthy role
       \<and> getProp role ''id'' = Inr (JNum rid) \<and> cache rid = Some rules
       \<and> (\<forall>r \<in> set rules. conditions r = companyId_template \<and> rule_fields r \<noteq> Some [])
       \<and> map_of rkvs ''companyId'' = Some (Data v) \<and> concrete v
      \<longrightarrow> checkUserAbilityWithConditions (mongo_options ext pat class_of) cache (JObj kvs)
            act (JObj rkvs) field = Inr False)"
proof (intro conjI impI)
  assume "map_of kvs ''companyId'' = Some (Data (JNum 42))"
  then show "resolveConditions companyId_template (JObj kvs) = plainObj [(''companyId'', JNum 42)]"
    by (rule resolve_companyId_present)
next
  assume "map_of kvs ''companyId'' = None"
  then show "resolveConditions companyId_template (JObj kvs) = plainObj [(''companyId'', JUndefined)]"
    by (rule resolve_companyId_absent)
next
  let ?opts = "mongo_options ext pat class_of"
  let ?user = "JObj kvs"
  let ?ab = "map (resolveRule ?user) rules"
  assume h: "map_of kvs ''companyId'' = None
       \<and> getProp (JObj kvs) ''role'' = Inr role \<and> truthy role
       \<and> getProp role ''id'' = Inr (JNum rid) \<and> cache rid = Some rules
       \<and> (\<forall>r \<in> set rules. conditions r = companyId_template \<and> rule_fields r \<noteq> Some [])
       \<and> map_of rkvs ''companyId'' = Some (Data v) \<and> concrete v"
  then have ab: "defineAbilityForUser cache ?user = Inr (Some ?ab)"
    using createMongoAbility_resolved [of rules ?user]
    by (simp add: defineAbilityForUser_def roleAbilities_get_def)
  have nomatch: "\<forall>r \<in> set ?ab. matchesConditions ?opts r (JObj rkvs) = Inr False"
  proof
    fix r assume "r \<in> set ?ab"
    then obtain r0 where r0: "r0 \<in> set rules" and r: "r = resolveRule ?user r0" by auto
    from r0 h have c0: "conditions r0 = companyId_template" by simp
    have "conditions r = plainObj [(''companyId'', JUndefined)]"
      using h c0 resolve_companyId_absent [of kvs]
      by (simp add: r resolveRule_def companyId_template_def plainObj_def)
    then show "matchesConditions ?opts r (JObj rkvs) = Inr False"
      using h unresolved_no_match [of rkvs v ext]
      by (simp add: matchesConditions_def mongo_options_def plainObj_def)
  qed
  then have "\<forall>r \<in> set (rulesFor ?opts ?ab act (subjectTypeOf ?opts (JObj rkvs)) field).
               matchesConditions ?opts r (JObj rkvs) = Inr False"
    by (auto simp: rulesFor_def)
  then have "can ?opts ?ab act (JObj rkvs) field = Inr False"
    by (simp add: can_def relevantRuleFor_def first_match_none)
  with ab show "checkUserAbilityWithConditions ?opts cache ?user act (JObj rkvs) field = Inr False"
    by (simp add: checkUserAbilityWithConditions_def)
qed

theorem companyId_template_resolution_witness:
  "resolveConditions companyId_template example_company_user = plainObj [(''companyId'', JNum 42)]
   \<and> resolveConditions companyId_template example_user = plainObj [(''companyId'', JUndefined)]
   \<and> checkUserAbilityWithConditions example_options
        (Map.empty (1 \<mapsto> [example_rule [''read'', ''update''] companyId_template False]))
        example_user ''update'' (plainObj [(''id'', JNum 3), (''companyId'', JNum 7)]) None
      = Inr False"
proof -
  let ?ckvs = "[(''id'', Data (JNum 5)), (''companyId'', Data (JNum 42)),
                (''role'', Data (JObj [(''id'', Data (JNum 1))]))]"
  let ?kvs = "[(''id'', Data (JNum 5)), (''role'', Data (JObj [(''id'', Data (JNum 1))]))]"
  let ?rkvs = "[(''id'', Data (JNum 3)), (''companyId'', Data (JNum 7))]"
  let ?rules = "[example_rule [''read'', ''update''] companyId_template False]"
  have cu: "example_company_user = JObj ?ckvs"
    by (simp add: example_company_user_def plainObj_def)
  have u: "example_user = JObj ?kvs"
    by (simp add: example_user_def plainObj_def)
  have res: "plainObj [(''id'', JNum 3), (''companyId'', JNum 7)] = JObj ?rkvs"
    by (simp add: plainObj_def)
  have p: "map_of ?ckvs ''companyId'' = Some (Data (JNum 42))" by simp
  have a: "map_of ?kvs ''companyId'' = None" by simp
  have h: "map_of ?kvs ''companyId'' = None
       \<and> getProp (JObj ?kvs) ''role'' = Inr (JObj [(''id'', Data (JNum 1))])
       \<and> truthy (JObj [(''id'', Data (JNum 1))])
       \<and> getProp (JObj [(''id'', Data (JNum 1))]) ''id'' = Inr (JNum 1)
       \<and> (Map.empty (1 \<mapsto> ?rules)) 1 = Some ?rules
       \<and> (\<forall>r \<in> set ?rules. conditions r = companyId_template \<and> rule_fields r \<noteq> Some [])
       \<and> map_of ?rkvs ''companyId'' = Some (Data (JNum 7)) \<and> concrete (JNum 7)"
    by (simp add: example_rule_def concrete_def)
  from companyId_template_resolution [of ?ckvs] p
  have 1: "resolveConditions companyId_template (JObj ?ckvs) = plainObj [(''companyId'', JNum 42)]"
    by blast
  from companyId_template_resolution [of ?kvs "JObj [(''id'', Data (JNum 1))]" 1
         "Map.empty (1 \<mapsto> ?rules)" ?rules ?rkvs "JNum 7"
         "\<lambda>query object. Inl (Error ''operator document'')" "\<lambda>fs field. False"
         "\<lambda>object. ''Course''" "''update''" None] a h
  have 2: "resolveConditions companyId_template (JObj ?kvs) = plainObj [(''companyId'', JUndefined)]"
    and 3: "checkUserAbilityWithConditions example_options (Map.empty (1 \<mapsto> ?rules)) (JObj ?kvs)
              ''update'' (JObj ?rkvs) None = Inr False"
    unfolding example_options_def by blast+
  from 1 2 3 show ?thesis by (simp only: cu u res simp_thms)
qed

section \<open>Audit log and role mutations: properties\<close>

lemma getProp_snapshot:
  "getProp (snapshot p) ''action'' = Inr (p_action (perm_data p))"
  "getProp (snapshot p) ''subject'' = Inr (p_subject (perm_data p))"
  by (simp_all add: snapshot_def plainObj_def)

lemma logAction_tables:
  "db_roles (snd (logAction f db options)) = db_roles db"
  "db_permissions (snd (logAction f db options)) = db_permissions db"
  by (simp_all add: logAction_def logAction_try_def Let_def split: sum.splits)

lemma logAction_audit_logs:
  "db_audit_logs (snd (logAction f db options))
     = db_audit_logs db
       @ (if save_audit_fails f then [] else [\<lparr>log_id = db_next_id db, log_entry = options\<rparr>])"
  by (simp add: logAction_def logAction_try_def Let_def split: sum.splits)

lemma logAction_failing_store:
  "save_audit_fails f \<Longrightarrow> logAction f db options = (None, db)"
  by (simp add: logAction_def logAction_try_def)

lemma logAction_catches:
  "logAction_try f db options = (Inl e, db') \<Longrightarrow> logAction f db options = (None, db')"
  by (simp add: logAction_def)

lemma logPermissionGrant_snapshot:
  "logPermissionGrant f db act roleId (snapshot p) ip ua
     = (Inr (fst (logAction f db (grantOptions act roleId (snapshot p) (p_action (perm_data p))
                                    (p_subject (perm_data p)) ip ua))),
        snd (logAction f db (grantOptions act roleId (snapshot p) (p_action (perm_data p))
                                    (p_subject (perm_data p)) ip ua)))"
  by (simp add: logPermissionGrant_def getProp_snapshot case_prod_beta)

lemma logPermissionRevoke_snapshot:
  "logPermissionRevoke f db act roleId pid (snapshot p) ip ua
     = (Inr (fst (logAction f db (revokeOptions act roleId pid (snapshot p) (p_action (perm_data p))
                                    (p_subject (perm_data p)) ip ua))),
        snd (logAction f db (revokeOptions act roleId pid (snapshot p) (p_action (perm_data p))
                                    (p_subject (perm_data p)) ip ua)))"
  by (simp add: logPermissionRevoke_def getProp_snapshot case_prod_beta)

lemma addPermission_try_ok:
  assumes "findRole f db roleId = Inr r" and "\<not> save_permission_fails f" and "\<not> save_role_fails f"
  shows "addPermission_try f db roleId perm act ip ua =
     (Inr (r\<lparr>role_permissions := role_permissions r @ [\<lparr>perm_id = db_next_id db, perm_data = perm\<rparr>]\<rparr>),
      if truthy act
      then snd (logAction f (afterGrant db r perm)
             (grantOptions act roleId (snapshot \<lparr>perm_id = db_next_id db, perm_data = perm\<rparr>)
                (p_action perm) (p_subject perm) ip ua))
      else afterGrant db r perm)"
  using assms
  by (simp add: addPermission_try_def Let_def logPermissionGrant_snapshot afterGrant_def)

lemma addPermission_try_fails:
  assumes "(\<exists>e. findRole f db roleId = Inl e) \<or> save_permission_fails f \<or> save_role_fails f"
  shows "\<exists>e db'. addPermission_try f db roleId perm act ip ua = (Inl e, db')"
  using assms
  by (auto simp: addPermission_try_def Let_def split: sum.splits)

lemma addPermission_success:
  assumes "addPermission f db roleId perm act ip ua = (Inr updatedRole, db')"
  shows "\<exists>r. db_roles db roleId = Some r
           \<and> updatedRole = r\<lparr>role_permissions :=
                 role_permissions r @ [\<lparr>perm_id = db_next_id db, perm_data = perm\<rparr>]\<rparr>
           \<and> db_audit_logs db'
               = db_audit_logs db
                 @ (if truthy act \<and> \<not> save_audit_fails f
                    then [\<lparr>log_id = Suc (db_next_id db),
                           log_entry = grantOptions act roleId
                             (snapshot \<lparr>perm_id = db_next_id db, perm_data = perm\<rparr>)
                             (p_action perm) (p_subject perm) ip ua\<rparr>]
                    else [])"
proof -
  from assms have ok: "\<exists>u d. addPermission_try f db roleId perm act ip ua = (Inr u, d)"
    by (auto simp: addPermission_def split: prod.splits sum.splits)
  have nf: "\<not> ((\<exists>e. findRole f db roleId = Inl e) \<or> save_permission_fails f \<or> save_role_fails f)"
  proof
    assume "(\<exists>e. findRole f db roleId = Inl e) \<or> save_permission_fails f \<or> save_role_fails f"
    from addPermission_try_fails [OF this, of perm act ip ua] ok show False by auto
  qed
  then obtain r where r: "findRole f db roleId = Inr r"
    by (cases "findRole f db roleId") auto
  from r have dbr: "db_roles db roleId = Some r"
    by (auto simp: findRole_def split: if_splits option.splits)
  from nf have sp: "\<not> save_permission_fails f" and sr: "\<not> save_role_fails f" by auto
  note t = addPermission_try_ok [OF r sp sr, of perm act ip ua]
  from assms t have u: "updatedRole = r\<lparr>role_permissions :=
                 role_permissions r @ [\<lparr>perm_id = db_next_id db, perm_data = perm\<rparr>]\<rparr>"
    and d: "db' = (if truthy act
      then snd (logAction f (afterGrant db r perm)
             (grantOptions act roleId (snapshot \<lparr>perm_id = db_next_id db, perm_data = perm\<rparr>)
                (p_action perm) (p_subject perm) ip ua))
      else afterGrant db r perm)"
    by (simp_all add: addPermission_def)
  have ag: "db_audit_logs (afterGrant db r perm) = db_audit_logs db"
    "db_next_id (afterGrant db r perm) = Suc (db_next_id db)"
    by (simp_all add: afterGrant_def)
  have "db_audit_logs db' = db_audit_logs db
                 @ (if truthy act \<and> \<not> save_audit_fails f
                    then [\<lparr>log_id = Suc (db_next_id db),
                           log_entry = grantOptions act roleId
                             (snapshot \<lparr>perm_id = db_next_id db, perm_data = perm\<rparr>)
                             (p_action perm) (p_subject perm) ip ua\<rparr>]
                    else [])"
    by (simp add: d logAction_audit_logs ag)
  with dbr u show ?thesis by blast
qed

lemma removePermission_try_found:
  assumes "findRole f db roleId = Inr r"
    and "find (\<lambda>p. string_of_nat (perm_id p) = permissionId) (role_permissions r) = Some p"
  shows "removePermission_try f db roleId permissionId act ip ua =
           detachAndDelete f (afterRevoke f db roleId permissionId r p act ip ua) r permissionId p"
proof (cases "truthy act")
  case True
  with assms show ?thesis
    by (simp add: removePermission_try_def logPermissionRevoke_snapshot afterRevoke_def)
next
  case False
  with assms show ?thesis
    by (simp add: removePermission_try_def afterRevoke_def)
qed

lemma detachAndDelete_cases:
  "detachAndDelete f db r permissionId p =
     (if save_role_fails f then (Inl (Error ''role store unavailable''), db)
      else if delete_permission_fails f
      then (Inl (Error ''permission store unavailable''),
            db\<lparr>db_roles := (db_roles db)(role_id r \<mapsto> r\<lparr>role_permissions :=
                  filter (\<lambda>p. string_of_nat (perm_id p) \<noteq> permissionId) (role_permissions r)\<rparr>)\<rparr>)
      else (Inr (if db_permissions db (perm_id p) = None then 0 else 1),
            db\<lparr>db_roles := (db_roles db)(role_id r \<mapsto> r\<lparr>role_permissions :=
                  filter (\<lambda>p. string_of_nat (perm_id p) \<noteq> permissionId) (role_permissions r)\<rparr>),
               db_permissions := (db_permissions db)(perm_id p := None)\<rparr>))"
  by (simp add: detachAndDelete_def Let_def)

lemma removePermission_try_not_found:
  assumes "(\<exists>e. findRole f db roleId = Inl e)
      \<or> (\<exists>r. findRole f db roleId = Inr r
              \<and> find (\<lambda>p. string_of_nat (perm_id p) = permissionId) (role_permissions r) = None)"
  shows "\<exists>e. removePermission_try f db roleId permissionId act ip ua = (Inl e, db)"
  using assms
  by (auto simp: removePermission_try_def)

lemma afterRevoke_audit_logs:
  "db_audit_logs (afterRevoke f db roleId permissionId r p act ip ua)
     = db_audit_logs db
       @ (if truthy act \<and> \<not> save_audit_fails f
          then [\<lparr>log_id = db_next_id db,
                 log_entry = revokeOptions act roleId (perm_id p) (snapshot p)
                               (p_action (perm_data p)) (p_subject (perm_data p)) ip ua\<rparr>]
          else [])"
  by (simp add: afterRevoke_def logAction_audit_logs)

lemma afterRevoke_tables:
  "db_roles (afterRevoke f db roleId permissionId r p act ip ua) = db_roles db"
  "db_permissions (afterRevoke f db roleId permissionId r p act ip ua) = db_permissions db"
  by (simp_all add: afterRevoke_def logAction_tables)

lemma removePermission_success:
  assumes "removePermission f db roleId permissionId act ip ua = (Inr n, db')"
  shows "\<exists>r p. db_roles db roleId = Some r
           \<and> find (\<lambda>p. string_of_nat (perm_id p) = permissionId) (role_permissions r) = Some p
           \<and> db_permissions db' (perm_id p) = None
           \<and> db_audit_logs db'
               = db_audit_logs db
                 @ (if truthy act \<and> \<not> save_audit_fails f
                    then [\<lparr>log_id = db_next_id db,
                           log_entry = revokeOptions act roleId (perm_id p) (snapshot p)
                               (p_action (perm_data p)) (p_subject (perm_data p)) ip ua\<rparr>]
                    else [])"
proof -
  from assms have ok: "removePermission_try f db roleId permissionId act ip ua = (Inr n, db')"
    by (auto simp: removePermission_def split: prod.splits sum.splits)
  have "\<not> ((\<exists>e. findRole f db roleId = Inl e)
      \<or> (\<exists>r. findRole f db roleId = Inr r
              \<and> find (\<lambda>p. string_of_nat (perm_id p) = permissionId) (role_permissions r) = None))"
  proof
    assume "(\<exists>e. findRole f db roleId = Inl e)
      \<or> (\<exists>r. findRole f db roleId = Inr r
              \<and> find (\<lambda>p. string_of_nat (perm_id p) = permissionId) (role_permissions r) = None)"
    from removePermission_try_not_found [OF this, of act ip ua] ok show False by auto
  qed
  then obtain r p where r: "findRole f db roleId = Inr r"
    and p: "find (\<lambda>p. string_of_nat (perm_id p) = permissionId) (role_permissions r) = Some p"
    by (cases "findRole f db roleId") auto
  from r have dbr: "db_roles db roleId = Some r"
    by (auto simp: findRole_def split: if_splits option.splits)
  note t = removePermission_try_found [OF r p, of act ip ua]
  from ok have nofail: "\<not> save_role_fails f" "\<not> delete_permission_fails f"
    unfolding t detachAndDelete_cases by (auto split: if_splits)
  from ok nofail have d: "db' =
      (afterRevoke f db roleId permissionId r p act ip ua)
        \<lparr>db_roles := (db_roles (afterRevoke f db roleId permissionId r p act ip ua))
            (role_id r \<mapsto> r\<lparr>role_permissions :=
               filter (\<lambda>p. string_of_nat (perm_id p) \<noteq> permissionId) (role_permissions r)\<rparr>),
         db_permissions := (db_permissions (afterRevoke f db roleId permissionId r p act ip ua))
            (perm_id p := None)\<rparr>"
    unfolding t detachAndDelete_cases by simp
  have "db_permissions db' (perm_id p) = None" by (simp add: d)
  moreover have "db_audit_logs db' = db_audit_logs db
                 @ (if truthy act \<and> \<not> save_audit_fails f
                    then [\<lparr>log_id = db_next_id db,
                           log_entry = revokeOptions act roleId (perm_id p) (snapshot p)
                               (p_action (perm_data p)) (p_subject (perm_data p)) ip ua\<rparr>]
                    else [])"
    by (simp add: d afterRevoke_audit_logs)
  ultimately show ?thesis using dbr p by blast
qed

lemma grantOptions_fields:
  "audit_action (grantOptions act roleId perm a s ip ua) = GRANT_PERMISSION"
  "actor (grantOptions act roleId perm a s ip ua) = act"
  "audit_changes (grantOptions act roleId perm a s ip ua)
     = Some \<lparr>changes_before = JUndefined, changes_after = perm\<rparr>"
  by (simp_all add: grantOptions_def)

lemma revokeOptions_fields:
  "audit_action (revokeOptions act roleId pid perm a s ip ua) = REVOKE_PERMISSION"
  "actor (revokeOptions act roleId pid perm a s ip ua) = act"
  "audit_changes (revokeOptions act roleId pid perm a s ip ua)
     = Some \<lparr>changes_before = perm, changes_after = JUndefined\<rparr>"
  by (simp_all add: revokeOptions_def)

text \<open>
  C3, as the code has it. A successful \<^verbatim>\<open>addPermission\<close> or \<^verbatim>\<open>removePermission\<close> writes
  exactly one audit entry when an actor is given and the audit store accepts the write,
  and none otherwise. The entry of a grant has the added rule's action, subject, fields and
  conditions as its \<^verbatim>\<open>after\<close> snapshot; the entry of a revoke has those of the removed rule
  as its \<^verbatim>\<open>before\<close> snapshot. (Nothing is said here of the rule cache.)
\<close>

theorem permission_mutation_audit:
  "(addPermission f db roleId perm act ip ua = (Inr updatedRole, db')
      \<longrightarrow> (\<exists>r entry. db_roles db roleId = Some r
             \<and> updatedRole = r\<lparr>role_permissions := role_permissions r
                                 @ [\<lparr>perm_id = db_next_id db, perm_data = perm\<rparr>]\<rparr>
             \<and> db_audit_logs db' = db_audit_logs db
                  @ (if truthy act \<and> \<not> save_audit_fails f then [entry] else [])
             \<and> audit_action (log_entry entry) = GRANT_PERMISSION
             \<and> actor (log_entry entry) = act
             \<and> audit_changes (log_entry entry)
                 = Some \<lparr>changes_before = JUndefined,
                          changes_after = snapshot \<lparr>perm_id = db_next_id db, perm_data = perm\<rparr>\<rparr>))
   \<and> (removePermission f db roleId permissionId act ip ua = (Inr n, db'')
      \<longrightarrow> (\<exists>r p entry. db_roles db roleId = Some r
             \<and> find (\<lambda>p. string_of_nat (perm_id p) = permissionId) (role_permissions r) = Some p
             \<and> db_permissions db'' (perm_id p) = None
             \<and> db_audit_logs db'' = db_audit_logs db
                  @ (if truthy act \<and> \<not> save_audit_fails f then [entry] else [])
             \<and> audit_action (log_entry entry) = REVOKE_PERMISSION
             \<and> actor (log_entry entry) = act
             \<and> audit_changes (log_entry entry)
                 = Some \<lparr>changes_before = snapshot p, changes_after = JUndefined\<rparr>))"
proof (intro conjI impI)
  assume "addPermission f db roleId perm act ip ua = (Inr updatedRole, db')"
  from addPermission_success [OF this] obtain r where
    r: "db_roles db roleId = Some r"
       "updatedRole = r\<lparr>role_permissions := role_permissions r
                           @ [\<lparr>perm_id = db_next_id db, perm_data = perm\<rparr>]\<rparr>"
       "db_audit_logs db' = db_audit_logs db
          @ (if truthy act \<and> \<not> save_audit_fails f
             then [\<lparr>log_id = Suc (db_next_id db),
                    log_entry = grantOptions act roleId
                      (snapshot \<lparr>perm_id = db_next_id db, perm_data = perm\<rparr>)
                      (p_action perm) (p_subject perm) ip ua\<rparr>]
             else [])"
    by blast
  let ?entry = "\<lparr>log_id = Suc (db_next_id db),
                 log_entry = grantOptions act roleId
                   (snapshot \<lparr>perm_id = db_next_id db, perm_data = perm\<rparr>)
                   (p_action perm) (p_subject perm) ip ua\<rparr>"
  have "db_roles db roleId = Some r
      \<and> updatedRole = r\<lparr>role_permissions := role_permissions r
                          @ [\<lparr>perm_id = db_next_id db, perm_data = perm\<rparr>]\<rparr>
      \<and> db_audit_logs db' = db_audit_logs db
           @ (if truthy act \<and> \<not> save_audit_fails f then [?entry] else [])
      \<and> audit_action (log_entry ?entry) = GRANT_PERMISSION
      \<and> actor (log_entry ?entry) = act
      \<and> audit_changes (log_entry ?entry)
          = Some \<lparr>changes_before = JUndefined,
                   changes_after = snapshot \<lparr>perm_id = db_next_id db, perm_data = perm\<rparr>\<rparr>"
    using r by (simp add: grantOptions_fields)
  then show "\<exists>r entry. db_roles db roleId = Some r
             \<and> updatedRole = r\<lparr>role_permissions := role_permissions r
                                 @ [\<lparr>perm_id = db_next_id db, perm_data = perm\<rparr>]\<rparr>
             \<and> db_audit_logs db' = db_audit_logs db
                  @ (if truthy act \<and> \<not> save_audit_fails f then [entry] else [])
             \<and> audit_action (log_entry entry) = GRANT_PERMISSION
             \<and> actor (log_entry entry) = act
             \<and> audit_changes (log_entry entry)
                 = Some \<lparr>changes_before = JUndefined,
                          changes_after = snapshot \<lparr>perm_id = db_next_id db, perm_data = perm\<rparr>\<rparr>"
    by blast
next
  assume "removePermission f db roleId permissionId act ip ua = (Inr n, db'')"
  from removePermission_success [OF this] obtain r p where
    r: "db_roles db roleId = Some r"
       "find (\<lambda>p. string_of_nat (perm_id p) = permissionId) (role_permissions r) = Some p"
       "db_permissions db'' (perm_id p) = None"
       "db_audit_logs db'' = db_audit_logs db
          @ (if truthy act \<and> \<not> save_audit_fails f
             then [\<lparr>log_id = db_next_id db,
                    log_entry = revokeOptions act roleId (perm_id p) (snapshot p)
                                  (p_action (perm_data p)) (p_subject (perm_data p)) ip ua\<rparr>]
             else [])"
    by blast
  let ?entry = "\<lparr>log_id = db_next_id db,
                 log_entry = revokeOptions act roleId (perm_id p) (snapshot p)
                               (p_action (perm_data p)) (p_subject (perm_data p)) ip ua\<rparr>"
  have "db_roles db roleId = Some r
      \<and> find (\<lambda>p. string_of_nat (perm_id p) = permissionId) (role_permissions r) = Some p
      \<and> db_permissions db'' (perm_id p) = None
      \<and> db_audit_logs db'' = db_audit_logs db
           @ (if truthy act \<and> \<not> save_audit_fails f then [?entry] else [])
      \<and> audit_action (log_entry ?entry) = REVOKE_PERMISSION
      \<and> actor (log_entry ?entry) = act
      \<and> audit_changes (log_entry ?entry)
          = Some \<lparr>changes_before = snapshot p, changes_after = JUndefined\<rparr>"
    using r by (simp add: revokeOptions_fields)
  then show "\<exists>r p entry. db_roles db roleId = Some r
             \<and> find (\<lambda>p. string_of_nat (perm_id p) = permissionId) (role_permissions r) = Some p
             \<and> db_permissions db'' (perm_id p) = None
             \<and> db_audit_logs db'' = db_audit_logs db
                  @ (if truthy act \<and> \<not> save_audit_fails f then [entry] else [])
             \<and> audit_action (log_entry entry) = REVOKE_PERMISSION
             \<and> actor (log_entry entry) = act
             \<and> audit_changes (log_entry entry)
                 = Some \<lparr>changes_before = snapshot p, changes_after = JUndefined\<rparr>"
    by blast
qed

theorem permission_mutation_audit_witness:
  "\<not> isl (fst (addPermission no_faults example_db 1 example_permission example_user None None))
   \<and> length (db_audit_logs (snd (addPermission no_faults example_db 1 example_permission
                                     example_user None None))) = 1
   \<and> \<not> isl (fst (removePermission no_faults example_db 1 ''7'' example_user None None))
   \<and> length (db_audit_logs (snd (removePermission no_faults example_db 1 ''7''
                                     example_user None None))) = 1"
proof -
  let ?a = "addPermission no_faults example_db 1 example_permission example_user None None"
  let ?r = "removePermission no_faults example_db 1 ''7'' example_user None None"
  have t: "truthy example_user \<and> \<not> save_audit_fails no_faults \<and> db_audit_logs example_db = []"
    by (simp add: example_user_def plainObj_def no_faults_def example_db_def)
  have a: "\<not> isl (fst ?a)" by code_simp
  then have "?a = (Inr (projr (fst ?a)), snd ?a)"
    by (cases "fst ?a") (simp_all add: prod_eq_iff)
  with permission_mutation_audit [of no_faults example_db 1 example_permission example_user
         None None "projr (fst ?a)" "snd ?a"]
  obtain entry where "db_audit_logs (snd ?a) = db_audit_logs example_db
       @ (if truthy example_user \<and> \<not> save_audit_fails no_faults then [entry] else [])"
    by blast
  with t have la: "length (db_audit_logs (snd ?a)) = 1" by simp
  have r: "\<not> isl (fst ?r)" by code_simp
  then have "?r = (Inr (projr (fst ?r)), snd ?r)"
    by (cases "fst ?r") (simp_all add: prod_eq_iff)
  with permission_mutation_audit [of no_faults example_db 1 _ example_user None None _ _
         "''7''" "projr (fst ?r)" "snd ?r"]
  obtain entry where "db_audit_logs (snd ?r) = db_audit_logs example_db
       @ (if truthy example_user \<and> \<not> save_audit_fails no_faults then [entry] else [])"
    by blast
  with t have lr: "length (db_audit_logs (snd ?r)) = 1" by simp
  from a la r lr show ?thesis by simp
qed

text \<open>
  The claim as the specification words it fails: called without an actor, \<^verbatim>\<open>addPermission\<close>
  and \<^verbatim>\<open>removePermission\<close> succeed and write no audit entry.
\<close>

theorem mutation_without_actor_not_audited:
  "\<not> isl (fst (addPermission no_faults example_db 1 example_permission JUndefined None None))
   \<and> length (db_audit_logs (snd (addPermission no_faults example_db 1 example_permission
                                     JUndefined None None))) = 0
   \<and> \<not> isl (fst (removePermission no_faults example_db 1 ''7'' JUndefined None None))
   \<and> length (db_audit_logs (snd (removePermission no_faults example_db 1 ''7''
                                     JUndefined None None))) = 0"
  by code_simp

lemma findRole_faults:
  "find_role_fails f = find_role_fails g \<Longrightarrow> findRole f db roleId = findRole g db roleId"
  by (simp add: findRole_def)

lemma addPermission_try_Inl:
  "findRole f db roleId = Inl e \<Longrightarrow> addPermission_try f db roleId perm act ip ua = (Inl e, db)"
  by (simp add: addPermission_try_def)

lemma addPermission_try_save_permission:
  "findRole f db roleId = Inr r \<Longrightarrow> save_permission_fails f
     \<Longrightarrow> addPermission_try f db roleId perm act ip ua
           = (Inl (Error ''permission store unavailable''), db)"
  by (simp add: addPermission_try_def)

lemma addPermission_try_save_role:
  "findRole f db roleId = Inr r \<Longrightarrow> \<not> save_permission_fails f \<Longrightarrow> save_role_fails f
     \<Longrightarrow> addPermission_try f db roleId perm act ip ua
           = (Inl (Error ''role store unavailable''),
              db\<lparr>db_permissions := (db_permissions db)(db_next_id db \<mapsto>
                     \<lparr>perm_id = db_next_id db, perm_data = perm\<rparr>),
                 db_next_id := Suc (db_next_id db)\<rparr>)"
  by (simp add: addPermission_try_def Let_def)

lemma addPermission_independent_of_audit:
  assumes "find_role_fails f = find_role_fails g"
    and "save_permission_fails f = save_permission_fails g"
    and "save_role_fails f = save_role_fails g"
  shows "fst (addPermission f db roleId perm act ip ua) = fst (addPermission g db roleId perm act ip ua)
     \<and> db_roles (snd (addPermission f db roleId perm act ip ua))
         = db_roles (snd (addPermission g db roleId perm act ip ua))
     \<and> db_permissions (snd (addPermission f db roleId perm act ip ua))
         = db_permissions (snd (addPermission g db roleId perm act ip ua))"
proof (cases "findRole g db roleId")
  case (Inl e)
  with findRole_faults [OF assms(1)] have "findRole f db roleId = Inl e" by simp
  with Inl show ?thesis by (simp add: addPermission_def addPermission_try_Inl)
next
  case (Inr r)
  with findRole_faults [OF assms(1)] have fr: "findRole f db roleId = Inr r" by simp
  show ?thesis
  proof (cases "save_permission_fails g")
    case True
    with assms(2) have "save_permission_fails f" by simp
    with True Inr fr show ?thesis
      by (simp add: addPermission_def addPermission_try_save_permission)
  next
    case False
    with assms(2) have sp: "\<not> save_permission_fails f" by simp
    show ?thesis
    proof (cases "save_role_fails g")
      case True
      with assms(3) have "save_role_fails f" by simp
      with True False sp Inr fr show ?thesis
        by (simp add: addPermission_def addPermission_try_save_role)
    next
      case sr: False
      with assms(3) have "\<not> save_role_fails f" by simp
      with sr False sp Inr fr show ?thesis
        by (simp add: addPermission_def addPermission_try_ok logAction_tables)
    qed
  qed
qed

lemma removePermission_independent_of_audit:
  assumes "find_role_fails f = find_role_fails g"
    and "save_role_fails f = save_role_fails g"
    and "delete_permission_fails f = delete_permission_fails g"
  shows "fst (removePermission f db roleId permissionId act ip ua)
         = fst (removePermission g db roleId permissionId act ip ua)
     \<and> db_roles (snd (removePermission f db roleId permissionId act ip ua))
         = db_roles (snd (removePermission g db roleId permissionId act ip ua))
     \<and> db_permissions (snd (removePermission f db roleId permissionId act ip ua))
         = db_permissions (snd (removePermission g db roleId permissionId act ip ua))"
proof (cases "findRole g db roleId")
  case (Inl e)
  with findRole_faults [OF assms(1)] have "findRole f db roleId = Inl e" by simp
  with Inl show ?thesis by (simp add: removePermission_def removePermission_try_def)
next
  case (Inr r)
  with findRole_faults [OF assms(1)] have fr: "findRole f db roleId = Inr r" by simp
  show ?thesis
  proof (cases "find (\<lambda>p. string_of_nat (perm_id p) = permissionId) (role_permissions r)")
    case None
    with Inr fr show ?thesis by (simp add: removePermission_def removePermission_try_def)
  next
    case (Some p)
    show ?thesis
      using assms(2,3)
      by (simp add: removePermission_def removePermission_try_found [OF fr Some]
            removePermission_try_found [OF Inr Some] detachAndDelete_cases afterRevoke_tables)
  qed
qed

text \<open>
  C7. \<^verbatim>\<open>logAction\<close> never raises: when the audit store refuses the entry, and whenever
  anything in its \<^verbatim>\<open>try\<close> block raises, it returns \<^verbatim>\<open>null\<close>; a refused entry leaves the
  store as it was. The outcome of \<^verbatim>\<open>addPermission\<close> and \<^verbatim>\<open>removePermission\<close>, and what
  they leave in the role and permission tables, are the same whether the audit store
  accepts the entry or refuses it.
\<close>

theorem audit_failure_never_propagates:
  "(save_audit_fails f \<longrightarrow> logAction f db options = (None, db))
   \<and> (logAction_try f db options = (Inl e, db1) \<longrightarrow> logAction f db options = (None, db1))
   \<and> fst (addPermission (f\<lparr>save_audit_fails := True\<rparr>) db roleId perm act ip ua)
       = fst (addPermission (f\<lparr>save_audit_fails := False\<rparr>) db roleId perm act ip ua)
   \<and> db_roles (snd (addPermission (f\<lparr>save_audit_fails := True\<rparr>) db roleId perm act ip ua))
       = db_roles (snd (addPermission (f\<lparr>save_audit_fails := False\<rparr>) db roleId perm act ip ua))
   \<and> db_permissions (snd (addPermission (f\<lparr>save_audit_fails := True\<rparr>) db roleId perm act ip ua))
       = db_permissions (snd (addPermission (f\<lparr>save_audit_fails := False\<rparr>) db roleId perm act ip ua))
   \<and> fst (removePermission (f\<lparr>save_audit_fails := True\<rparr>) db roleId permissionId act ip ua)
       = fst (removePermission (f\<lparr>save_audit_fails := False\<rparr>) db roleId permissionId act ip ua)
   \<and> db_roles (snd (removePermission (f\<lparr>save_audit_fails := True\<rparr>) db roleId permissionId act ip ua))
       = db_roles (snd (removePermission (f\<lparr>save_audit_fails := False\<rparr>) db roleId permissionId act ip ua))
   \<and> db_permissions (snd (removePermission (f\<lparr>save_audit_fails := True\<rparr>) db roleId permissionId act ip ua))
       = db_permissions (snd (removePermission (f\<lparr>save_audit_fails := False\<rparr>) db roleId permissionId act ip ua))"
  using logAction_failing_store [of f db options] logAction_catches [of f db options e db1]
    addPermission_independent_of_audit
      [of "f\<lparr>save_audit_fails := True\<rparr>" "f\<lparr>save_audit_fails := False\<rparr>" db roleId perm act ip ua]
    removePermission_independent_of_audit
      [of "f\<lparr>save_audit_fails := True\<rparr>" "f\<lparr>save_audit_fails := False\<rparr>" db roleId
          permissionId act ip ua]
  by simp

theorem audit_failure_never_propagates_witness:
  "save_audit_fails (no_faults\<lparr>save_audit_fails := True\<rparr>)
   \<and> logAction (no_faults\<lparr>save_audit_fails := True\<rparr>) example_db
        (grantOptions example_user 1 JNull JNull JNull None None) = (None, example_db)
   \<and> logAction_try (no_faults\<lparr>save_audit_fails := True\<rparr>) example_db
        (grantOptions example_user 1 JNull JNull JNull None None)
       = (Inl (Error ''audit store unavailable''), example_db)
   \<and> \<not> isl (fst (addPermission (no_faults\<lparr>save_audit_fails := True\<rparr>) example_db 1
                    example_permission example_user None None))"
proof -
  let ?f = "no_faults\<lparr>save_audit_fails := True\<rparr>"
  let ?o = "grantOptions example_user 1 JNull JNull JNull None None"
  have a: "save_audit_fails ?f" by simp
  have b: "logAction_try ?f example_db ?o = (Inl (Error ''audit store unavailable''), example_db)"
    by (simp add: logAction_try_def)
  have c: "\<not> isl (fst (addPermission (no_faults\<lparr>save_audit_fails := False\<rparr>) example_db 1
                    example_permission example_user None None))"
    by code_simp
  have d: "no_faults\<lparr>save_audit_fails := True, save_audit_fails := True\<rparr> = ?f"
          "no_faults\<lparr>save_audit_fails := True, save_audit_fails := False\<rparr>
             = no_faults\<lparr>save_audit_fails := False\<rparr>"
    by simp_all
  from audit_failure_never_propagates
         [of ?f example_db ?o "Error ''audit store unavailable''" example_db 1 example_permission
             example_user None None "''7''"] a b c
  show ?thesis by (simp only: d simp_thms)
qed

text \<open>
  C10. \<^verbatim>\<open>removePermission\<close> writes its revoke entry, when an actor is given, before the
  permission is detached and deleted. So when the role and the permission are found, the
  audit store accepts the entry, and then the save of the role or the delete of the
  permission fails, the operation raises \<^verbatim>\<open>RemovePermissionException\<close>, the audit log has
  gained the revoke entry of that permission, and the permission row is still in the store
  (and, when it was the save of the role that failed, still attached to the role).
\<close>

theorem revoke_audit_precedes_removal:
  assumes "truthy act" and "\<not> save_audit_fails f" and "\<not> find_role_fails f"
    and "db_roles db roleId = Some r"
    and "find (\<lambda>p. string_of_nat (perm_id p) = permissionId) (role_permissions r) = Some p"
    and "save_role_fails f \<or> delete_permission_fails f"
  shows "fst (removePermission f db roleId permissionId act ip ua)
           = Inl (RemovePermissionException
                   (''Error removing permission ('' @ permissionId @ '') from role (''
                    @ string_of_nat roleId @ '')''))
     \<and> db_audit_logs (snd (removePermission f db roleId permissionId act ip ua))
           = db_audit_logs db
             @ [\<lparr>log_id = db_next_id db,
                 log_entry = revokeOptions act roleId (perm_id p) (snapshot p)
                               (p_action (perm_data p)) (p_subject (perm_data p)) ip ua\<rparr>]
     \<and> audit_changes (revokeOptions act roleId (perm_id p) (snapshot p)
                        (p_action (perm_data p)) (p_subject (perm_data p)) ip ua)
           = Some \<lparr>changes_before = snapshot p, changes_after = JUndefined\<rparr>
     \<and> db_permissions (snd (removePermission f db roleId permissionId act ip ua))
           = db_permissions db
     \<and> (save_role_fails f
          \<longrightarrow> db_roles (snd (removePermission f db roleId permissionId act ip ua)) = db_roles db)"
proof -
  from assms(3,4) have fr: "findRole f db roleId = Inr r" by (simp add: findRole_def)
  note t = removePermission_try_found [OF fr assms(5), of act ip ua]
  show ?thesis
  proof (cases "save_role_fails f")
    case True
    then show ?thesis
      using assms(1,2)
      by (simp add: removePermission_def t detachAndDelete_cases afterRevoke_audit_logs
            afterRevoke_tables revokeOptions_fields)
  next
    case False
    with assms(6) have "delete_permission_fails f" by simp
    with False show ?thesis
      using assms(1,2)
      by (simp add: removePermission_def t detachAndDelete_cases afterRevoke_audit_logs
            afterRevoke_tables revokeOptions_fields)
  qed
qed

theorem revoke_audit_precedes_removal_witness:
  "fst (removePermission (no_faults\<lparr>save_role_fails := True\<rparr>) example_db 1 ''7''
          example_user None None)
     = Inl (RemovePermissionException ''Error removing permission (7) from role (1)'')
   \<and> length (db_audit_logs (snd (removePermission (no_faults\<lparr>save_role_fails := True\<rparr>)
        example_db 1 ''7'' example_user None None))) = 1
   \<and> db_permissions (snd (removePermission (no_faults\<lparr>save_role_fails := True\<rparr>)
        example_db 1 ''7'' example_user None None)) 7
      = Some \<lparr>perm_id = 7, perm_data = example_permission\<rparr>"
proof -
  let ?f = "no_faults\<lparr>save_role_fails := True\<rparr>"
  let ?r = "\<lparr>role_id = 1, role_name = ''editor'',
             role_permissions = [\<lparr>perm_id = 7, perm_data = example_permission\<rparr>]\<rparr>"
  let ?p = "\<lparr>perm_id = 7, perm_data = example_permission\<rparr>"
  have a: "truthy example_user" by (simp add: example_user_def plainObj_def)
  have b: "\<not> save_audit_fails ?f" by (simp add: no_faults_def)
  have c: "\<not> find_role_fails ?f" by (simp add: no_faults_def)
  have d: "db_roles example_db 1 = Some ?r" by (simp add: example_db_def)
  have s7: "string_of_nat 7 = ''7''" by code_simp
  have s1: "string_of_nat (Suc 0) = ''1''" by code_simp
  have e: "find (\<lambda>p. string_of_nat (perm_id p) = ''7'') (role_permissions ?r) = Some ?p"
    by (simp add: s7)
  have g: "save_role_fails ?f \<or> delete_permission_fails ?f" by simp
  have h: "db_audit_logs example_db = [] \<and> db_permissions example_db 7 = Some ?p"
    by (simp add: example_db_def)
  from revoke_audit_precedes_removal [OF a b c d e g, of None None] h
  show ?thesis by (simp add: s1)
qed

section \<open>Ownership check: properties\<close>

lemma first_match_granted:
  assumes "matchesConditions opts g s = Inr True" and "\<not> inverted g"
    and "\<forall>r \<in> set xs. matchesConditions opts r s = Inr False
            \<or> (matchesConditions opts r s = Inr True \<and> \<not> inverted r)"
  shows "\<exists>h. first_match opts (xs @ g # ys) s = Inr (Some h) \<and> \<not> inverted h"
  using assms
proof (induction xs)
  case Nil
  then show ?case by simp
next
  case (Cons x xs)
  from Cons.prems(3) have
    "matchesConditions opts x s = Inr False
       \<or> (matchesConditions opts x s = Inr True \<and> \<not> inverted x)"
    by simp
  then show ?case
  proof
    assume "matchesConditions opts x s = Inr False"
    with Cons show ?thesis by simp
  next
    assume "matchesConditions opts x s = Inr True \<and> \<not> inverted x"
    then show ?thesis by simp
  qed
qed

lemma rulesFor_irrelevant:
  "\<forall>r \<in> set ab. \<not> relevant act stype r \<Longrightarrow> rulesFor opts ab act stype field = []"
  by (simp add: rulesFor_def)

lemma can_granted:
  assumes "\<not> inverted g" and "relevant act (subjectTypeOf opts s) g"
    and "matchesField opts g field" and "matchesConditions opts g s = Inr True"
    and "\<forall>r \<in> set post. relevant act (subjectTypeOf opts s) r \<and> matchesField opts r field
           \<longrightarrow> matchesConditions opts r s = Inr False
               \<or> (matchesConditions opts r s = Inr True \<and> \<not> inverted r)"
  shows "can opts (pre @ g # post) act s field = Inr True"
proof -
  let ?t = "subjectTypeOf opts s"
  have later: "\<forall>r \<in> set (rulesFor opts post act ?t field).
                 matchesConditions opts r s = Inr False
                 \<or> (matchesConditions opts r s = Inr True \<and> \<not> inverted r)"
    using assms(5) by (simp add: set_rulesFor)
  have "\<exists>h. relevantRuleFor opts (pre @ g # post) act s field = Inr (Some h) \<and> \<not> inverted h"
    unfolding relevantRuleFor_def rulesFor_split [OF assms(2,3)]
    by (rule first_match_granted [OF assms(4) assms(1) later])
  then show ?thesis by (auto simp: can_def)
qed

lemma can_no_relevant:
  assumes "\<forall>r \<in> set ab. \<not> relevant act (subjectTypeOf opts s) r"
  shows "can opts ab act s field = Inr False"
  by (simp add: can_def relevantRuleFor_def rulesFor_irrelevant [OF assms])

lemma mapMethodToAction_update:
  "toUpperCase method = ''PATCH'' \<or> toUpperCase method = ''PUT''
     \<Longrightarrow> mapMethodToAction method = ''update''"
  by (auto simp: mapMethodToAction_def)

lemma guard_owner_unknown:
  assumes "truthy (req_user req)" and "resourceGetter md req = Inr resource"
    and "truthy resource"
    and "getNestedProperty resource (case ownerField md of None \<Rightarrow> ''ownerId'' | Some f \<Rightarrow> f)
           = Inr ownerId"
    and "\<not> truthy ownerId"
  shows "ResourceOwnerGuard_canActivate opts cache (Some md) req
           = Inl (ForbiddenException ''Cannot determine resource ownership'')"
  using assms
  by (simp add: ResourceOwnerGuard_canActivate_def ownership_check_def Let_def)

lemma guard_override:
  assumes "allowAdminOverride md = None \<or> allowAdminOverride md = Some True"
    and "truthy (req_user req)" and "resourceGetter md req = Inr resource"
    and "truthy resource"
    and "getNestedProperty resource (case ownerField md of None \<Rightarrow> ''ownerId'' | Some f \<Rightarrow> f)
           = Inr ownerId"
    and "truthy ownerId" and "getProp (req_user req) ''id'' = Inr uid"
    and "isOwner ownerId uid = Inr False"
    and "defineAbilityForUser cache (req_user req) = Inr (Some ab)"
    and "can opts ab (mapMethodToAction (req_method req)) resource None = Inr b"
  shows "ResourceOwnerGuard_canActivate opts cache (Some md) req
           = (if b then Inr True
              else Inl (ForbiddenException
                ''You can only access your own resources unless you have override permissions''))"
  using assms
  by (auto simp: ResourceOwnerGuard_canActivate_def ownership_check_def Let_def)

lemma guard_no_ability:
  assumes "allowAdminOverride md = None \<or> allowAdminOverride md = Some True"
    and "truthy (req_user req)" and "resourceGetter md req = Inr resource"
    and "truthy resource"
    and "getNestedProperty resource (case ownerField md of None \<Rightarrow> ''ownerId'' | Some f \<Rightarrow> f)
           = Inr ownerId"
    and "truthy ownerId" and "getProp (req_user req) ''id'' = Inr uid"
    and "isOwner ownerId uid = Inr False"
    and "defineAbilityForUser cache (req_user req) = Inr None"
  shows "ResourceOwnerGuard_canActivate opts cache (Some md) req
           = Inl (ForbiddenException ''You can only access your own resources'')"
  using assms
  by (auto simp: ResourceOwnerGuard_canActivate_def ownership_check_def Let_def)

text \<open>
  C9, as the code has it. Let admin override be permitted (the default) and let the guard
  have fetched a resource. If the owner field of the resource holds no value, the request
  is rejected (\<^verbatim>\<open>Cannot determine resource ownership\<close>) whatever the role grants. If it
  holds a value, the user is not the owner, and the user object of the request carries its
  role, whose rules are cached, so that an ability is compiled from it: the request is
  allowed when the ability has a grant of \<^verbatim>\<open>manage\<close> on the subject type of the resource
  (or on \<^verbatim>\<open>all\<close>) whose conditions match the resource, and every rule declared after that
  grant which applies to the action of the request either does not match the resource or
  is a grant too; and a \<^verbatim>\<open>PATCH\<close> or \<^verbatim>\<open>PUT\<close> request (an update) is rejected when the rules
  of the ability list no action other than \<^verbatim>\<open>read\<close>.
\<close>

theorem ownership_override:
  assumes "allowAdminOverride md = None \<or> allowAdminOverride md = Some True"
    and "truthy (req_user req)" and "resourceGetter md req = Inr resource"
    and "truthy resource"
    and "getNestedProperty resource (case ownerField md of None \<Rightarrow> ''ownerId'' | Some f \<Rightarrow> f)
           = Inr ownerId"
  shows "(\<not> truthy ownerId
          \<longrightarrow> ResourceOwnerGuard_canActivate opts cache (Some md) req
                = Inl (ForbiddenException ''Cannot determine resource ownership''))
     \<and> (truthy ownerId \<and> getProp (req_user req) ''id'' = Inr uid
          \<and> isOwner ownerId uid = Inr False
          \<and> defineAbilityForUser cache (req_user req) = Inr (Some (pre @ g # post))
          \<and> \<not> inverted g \<and> ''manage'' \<in> set (action g)
          \<and> (subjectTypeOf opts resource \<in> set (subject g) \<or> ''all'' \<in> set (subject g))
          \<and> matchesConditions opts g resource = Inr True
          \<and> (\<forall>r \<in> set post.
                relevant (mapMethodToAction (req_method req)) (subjectTypeOf opts resource) r
                \<and> matchesField opts r None
                \<longrightarrow> matchesConditions opts r resource = Inr False
                    \<or> (matchesConditions opts r resource = Inr True \<and> \<not> inverted r))
          \<longrightarrow> ResourceOwnerGuard_canActivate opts cache (Some md) req = Inr True)
     \<and> (truthy ownerId \<and> getProp (req_user req) ''id'' = Inr uid
          \<and> isOwner ownerId uid = Inr False
          \<and> defineAbilityForUser cache' (req_user req) = Inr (Some ab)
          \<and> (\<forall>r \<in> set ab. set (action r) \<subseteq> {''read''})
          \<and> (toUpperCase (req_method req) = ''PATCH'' \<or> toUpperCase (req_method req) = ''PUT'')
          \<longrightarrow> ResourceOwnerGuard_canActivate opts cache' (Some md) req
                = Inl (ForbiddenException
                    ''You can only access your own resources unless you have override permissions''))"
proof (intro conjI impI)
  assume "\<not> truthy ownerId"
  from guard_owner_unknown [OF assms(2-5) this]
  show "ResourceOwnerGuard_canActivate opts cache (Some md) req
          = Inl (ForbiddenException ''Cannot determine resource ownership'')" .
next
  let ?act = "mapMethodToAction (req_method req)"
  let ?t = "subjectTypeOf opts resource"
  assume h: "truthy ownerId \<and> getProp (req_user req) ''id'' = Inr uid
          \<and> isOwner ownerId uid = Inr False
          \<and> defineAbilityForUser cache (req_user req) = Inr (Some (pre @ g # post))
          \<and> \<not> inverted g \<and> ''manage'' \<in> set (action g)
          \<and> (?t \<in> set (subject g) \<or> ''all'' \<in> set (subject g))
          \<and> matchesConditions opts g resource = Inr True
          \<and> (\<forall>r \<in> set post. relevant ?act ?t r \<and> matchesField opts r None
                \<longrightarrow> matchesConditions opts r resource = Inr False
                    \<or> (matchesConditions opts r resource = Inr True \<and> \<not> inverted r))"
  then have rel: "relevant ?act ?t g"
    by (simp add: relevant_def)
  from h have mf: "matchesField opts g None"
    by (simp add: matchesField_def split: option.splits)
  from h have mc: "matchesConditions opts g resource = Inr True"
    and ni: "\<not> inverted g"
    and po: "\<forall>r \<in> set post. relevant ?act ?t r \<and> matchesField opts r None
                \<longrightarrow> matchesConditions opts r resource = Inr False
                    \<or> (matchesConditions opts r resource = Inr True \<and> \<not> inverted r)"
    by simp_all
  have c: "can opts (pre @ g # post) ?act resource None = Inr True"
    by (rule can_granted [OF ni rel mf mc po])
  from h have a: "truthy ownerId" "getProp (req_user req) ''id'' = Inr uid"
    "isOwner ownerId uid = Inr False"
    "defineAbilityForUser cache (req_user req) = Inr (Some (pre @ g # post))"
    by simp_all
  from guard_override [OF assms(1-5) a c]
  show "ResourceOwnerGuard_canActivate opts cache (Some md) req = Inr True" by simp
next
  let ?act = "mapMethodToAction (req_method req)"
  assume h: "truthy ownerId \<and> getProp (req_user req) ''id'' = Inr uid
          \<and> isOwner ownerId uid = Inr False
          \<and> defineAbilityForUser cache' (req_user req) = Inr (Some ab)
          \<and> (\<forall>r \<in> set ab. set (action r) \<subseteq> {''read''})
          \<and> (toUpperCase (req_method req) = ''PATCH'' \<or> toUpperCase (req_method req) = ''PUT'')"
  then have u: "?act = ''update''" by (simp add: mapMethodToAction_update)
  from h have "\<forall>r \<in> set ab. \<not> relevant ''update'' (subjectTypeOf opts resource) r"
    by (auto simp: relevant_def)
  from can_no_relevant [OF this]
  have c: "can opts ab ?act resource None = Inr False" by (simp add: u)
  from h have a: "truthy ownerId" "getProp (req_user req) ''id'' = Inr uid"
    "isOwner ownerId uid = Inr False"
    "defineAbilityForUser cache' (req_user req) = Inr (Some ab)"
    by simp_all
  from guard_override [OF assms(1-5) a c]
  show "ResourceOwnerGuard_canActivate opts cache' (Some md) req
          = Inl (ForbiddenException
              ''You can only access your own resources unless you have override permissions'')"
    by simp
qed

theorem ownership_override_witness:
  "ResourceOwnerGuard_canActivate example_options
      (Map.empty (1 \<mapsto>
         [example_rule [''read''] JUndefined False,
          example_rule [''manage''] (plainObj [(''archived'', JBool False)]) False,
          example_rule [''update''] (plainObj [(''archived'', JBool True)]) True,
          example_rule [''update'', ''delete''] JUndefined False]))
      (Some (example_owner_metadata
         (plainObj [(''id'', JNum 3), (''ownerId'', JNum 9), (''archived'', JBool False)])))
      example_patch = Inr True
   \<and> ResourceOwnerGuard_canActivate example_options
      (Map.empty (1 \<mapsto> [example_rule [''read''] JUndefined False]))
      (Some (example_owner_metadata
         (plainObj [(''id'', JNum 3), (''ownerId'', JNum 9), (''archived'', JBool False)])))
      example_patch
     = Inl (ForbiddenException
         ''You can only access your own resources unless you have override permissions'')
   \<and> ResourceOwnerGuard_canActivate example_options
      (Map.empty (1 \<mapsto> [example_rule [''manage''] JUndefined False]))
      (Some (example_owner_metadata (plainObj [(''id'', JNum 3), (''ownerId'', JNull)])))
      example_patch
     = Inl (ForbiddenException ''Cannot determine resource ownership'')"
proof -
  let ?res = "plainObj [(''id'', JNum 3), (''ownerId'', JNum 9), (''archived'', JBool False)]"
  let ?orphan = "plainObj [(''id'', JNum 3), (''ownerId'', JNull)]"
  let ?p = "example_rule [''read''] JUndefined False"
  let ?g = "example_rule [''manage''] (plainObj [(''archived'', JBool False)]) False"
  let ?f = "example_rule [''update''] (plainObj [(''archived'', JBool True)]) True"
  let ?u = "example_rule [''update'', ''delete''] JUndefined False"
  let ?admin = "Map.empty (1 \<mapsto> [?p, ?g, ?f, ?u])"
  let ?reader = "Map.empty (1 \<mapsto> [?p])"
  let ?plain = "Map.empty (1 \<mapsto> [example_rule [''manage''] JUndefined False])"
  have o: "allowAdminOverride (example_owner_metadata ?res) = None
             \<or> allowAdminOverride (example_owner_metadata ?res) = Some True"
    "allowAdminOverride (example_owner_metadata ?orphan) = None
             \<or> allowAdminOverride (example_owner_metadata ?orphan) = Some True"
    by (simp_all add: example_owner_metadata_def)
  have u: "truthy (req_user example_patch)" by code_simp
  have rg: "resourceGetter (example_owner_metadata ?res) example_patch = Inr ?res"
    "resourceGetter (example_owner_metadata ?orphan) example_patch = Inr ?orphan"
    by (simp_all add: example_owner_metadata_def)
  have tr: "truthy ?res" "truthy ?orphan" by (simp_all add: plainObj_def)
  have ow: "getNestedProperty ?res
              (case ownerField (example_owner_metadata ?res) of None \<Rightarrow> ''ownerId'' | Some f \<Rightarrow> f)
              = Inr (JNum 9)"
    "getNestedProperty ?orphan
              (case ownerField (example_owner_metadata ?orphan) of None \<Rightarrow> ''ownerId'' | Some f \<Rightarrow> f)
              = Inr JNull"
    by code_simp+
  have uid: "getProp (req_user example_patch) ''id'' = Inr (JNum 5)" by code_simp
  have no: "isOwner (JNum 9) (JNum 5) = Inr False" by code_simp
  have ab1: "defineAbilityForUser ?admin (req_user example_patch)
               = Inr (Some ([?p] @ ?g # [?f, ?u]))"
    by code_simp
  have ab2: "defineAbilityForUser ?reader (req_user example_patch) = Inr (Some [?p])"
    by code_simp
  have g: "\<not> inverted ?g \<and> ''manage'' \<in> set (action ?g)
       \<and> (subjectTypeOf example_options ?res \<in> set (subject ?g) \<or> ''all'' \<in> set (subject ?g))
       \<and> matchesConditions example_options ?g ?res = Inr True"
    by code_simp
  have f: "matchesConditions example_options ?f ?res = Inr False" by code_simp
  have v: "matchesConditions example_options ?u ?res = Inr True \<and> \<not> inverted ?u" by code_simp
  have po: "\<forall>r \<in> set [?f, ?u].
              relevant (mapMethodToAction (req_method example_patch))
                (subjectTypeOf example_options ?res) r
              \<and> matchesField example_options r None
              \<longrightarrow> matchesConditions example_options r ?res = Inr False
                  \<or> (matchesConditions example_options r ?res = Inr True \<and> \<not> inverted r)"
    using f v by simp
  have h: "\<forall>r \<in> set [?p]. set (action r) \<subseteq> {''read''}"
    by (simp add: example_rule_def)
  have m: "toUpperCase (req_method example_patch) = ''PATCH''" by code_simp
  note t = ownership_override [OF o(1) u rg(1) tr(1) ow(1),
      where opts = example_options and cache = ?admin and uid = "JNum 5" and pre = "[?p]"
        and g = ?g and post = "[?f, ?u]" and cache' = ?reader and ab = "[?p]"]
  note t' = ownership_override [OF o(2) u rg(2) tr(2) ow(2),
      where opts = example_options and cache = ?plain]
  have 1: "ResourceOwnerGuard_canActivate example_options ?admin
      (Some (example_owner_metadata ?res)) example_patch = Inr True"
    using uid no ab1 g po
    by (intro t [THEN conjunct2, THEN conjunct1, THEN mp] conjI) simp_all
  have 2: "ResourceOwnerGuard_canActivate example_options ?reader
      (Some (example_owner_metadata ?res)) example_patch
     = Inl (ForbiddenException
         ''You can only access your own resources unless you have override permissions'')"
    using uid no ab2 h m
    by (intro t [THEN conjunct2, THEN conjunct2, THEN mp] conjI) simp_all
  from t' have 3: "ResourceOwnerGuard_canActivate example_options ?plain
      (Some (example_owner_metadata ?orphan)) example_patch
     = Inl (ForbiddenException ''Cannot determine resource ownership'')"
    by simp
  from 1 2 3 show ?thesis by simp
qed

text \<open>
  The claim as the specification words it fails: the user is not the owner of the resource,
  which has no owner, the role grants \<^verbatim>\<open>manage\<close> on its subject, and the request is
  rejected.
\<close>

theorem manager_rejected_when_owner_unknown:
  "checkUserAbilityWithConditions example_options
      (Map.empty (1 \<mapsto> [example_rule [''manage''] JUndefined False]))
      example_user ''manage'' (plainObj [(''id'', JNum 3), (''title'', JStr ''Algebra'')]) None
     = Inr True
   \<and> getNestedProperty (plainObj [(''id'', JNum 3), (''title'', JStr ''Algebra'')]) ''ownerId''
     = Inr JUndefined
   \<and> ResourceOwnerGuard_canActivate example_options
      (Map.empty (1 \<mapsto> [example_rule [''manage''] JUndefined False]))
      (Some (example_owner_metadata (plainObj [(''id'', JNum 3), (''title'', JStr ''Algebra'')])))
      example_patch
     = Inl (ForbiddenException ''Cannot determine resource ownership'')"
  by code_simp

text \<open>
  A forbid of the action that is declared after the grant of \<^verbatim>\<open>manage\<close> and matches the
  resource decides against the override.
\<close>

lemma later_forbid_blocks_override:
  "ResourceOwnerGuard_canActivate example_options
      (Map.empty (1 \<mapsto> [example_rule [''manage''] JUndefined False,
                           example_rule [''update''] JUndefined True]))
      (Some (example_owner_metadata (plainObj [(''id'', JNum 3), (''ownerId'', JNum 9)])))
      example_patch
     = Inl (ForbiddenException
         ''You can only access your own resources unless you have override permissions'')"
  by code_simp

text \<open>
  The user object that \<^verbatim>\<open>JwtStrategy.validate\<close> builds holds an id and an email and no
  role. The guard compiles no ability from it: on such a request a user who is not the
  owner is rejected whatever the rule cache holds for the role of the account.
\<close>

lemma jwt_user_override_rejected:
  assumes "allowAdminOverride md = None \<or> allowAdminOverride md = Some True"
    and "req_user req = JwtStrategy_validate sub email"
    and "resourceGetter md req = Inr resource" and "truthy resource"
    and "getNestedProperty resource (case ownerField md of None \<Rightarrow> ''ownerId'' | Some f \<Rightarrow> f)
           = Inr ownerId"
    and "truthy ownerId" and "isOwner ownerId sub = Inr False"
  shows "ResourceOwnerGuard_canActivate opts cache (Some md) req
           = Inl (ForbiddenException ''You can only access your own resources'')"
proof -
  have u: "truthy (req_user req)"
    by (simp add: assms(2) JwtStrategy_validate_def plainObj_def)
  have i: "getProp (req_user req) ''id'' = Inr sub"
    by (simp add: assms(2) JwtStrategy_validate_def plainObj_def)
  have a: "defineAbilityForUser cache (req_user req) = Inr None"
    by (simp add: assms(2) JwtStrategy_validate_def plainObj_def defineAbilityForUser_def)
  show ?thesis
    by (rule guard_no_ability [OF assms(1) u assms(3,4,5,6) i assms(7) a])
qed

end
